theory Spec2Isabelle
  imports Complex_Main
begin

section \<open>JavaScript values used by the services\<close>

text \<open>
  Every failure of the services is a JavaScript exception. \<open>Error msg\<close> is
  \<^verbatim>\<open>new Error(msg)\<close>; \<open>TypeError msg\<close> is the runtime's exception for a property
  read on \<^verbatim>\<open>null\<close> or \<^verbatim>\<open>undefined\<close>. \<open>NotReady fileId maxRetries seconds\<close> is
  the error of the file service whose message interpolates three values:
  \<^verbatim>\<open>`File ${fileId} did not become ready after ${maxRetries} attempts (${maxRetries * delayMs / 1000}s timeout)`\<close>
\<close>

datatype error = Error string | TypeError string | NotReady string int rat

text \<open>
  An argument that may be \<^verbatim>\<open>undefined\<close>, \<^verbatim>\<open>null\<close> or an object. A default
  parameter (\<^verbatim>\<open>fallback = {}\<close>) replaces \<^verbatim>\<open>undefined\<close> only.
\<close>

datatype 'a maybe = Undefined | Null | Val 'a

text \<open>
  A string-valued property is \<open>None\<close> when the property is absent,
  \<^verbatim>\<open>undefined\<close> or \<^verbatim>\<open>null\<close>. It is truthy when it is present and not the
  empty string.
\<close>

definition truthy :: "string option \<Rightarrow> bool" where
  "truthy v = (case v of None \<Rightarrow> False | Some s \<Rightarrow> s \<noteq> [])"

text \<open>\<^verbatim>\<open>a || b\<close> on two optional strings.\<close>

definition js_or :: "string option \<Rightarrow> string option \<Rightarrow> string option" where
  "js_or a b = (if truthy a then a else b)"

text \<open>\<^verbatim>\<open>a || ''\<close>: the string itself, the empty string when it is falsy.\<close>

definition or_empty :: "string option \<Rightarrow> string" where
  "or_empty a = (case a of None \<Rightarrow> [] | Some s \<Rightarrow> s)"


section \<open>Draft order service: addresses\<close>

record address =
  firstName :: "string option"
  lastName :: "string option"
  address1 :: "string option"
  address2 :: "string option"
  city :: "string option"
  province :: "string option"
  provinceCode :: "string option"
  country :: "string option"
  countryCode :: "string option"
  zip :: "string option"
  phone :: "string option"
  company :: "string option"

text \<open>The object literal \<^verbatim>\<open>{}\<close> read as an address: every property absent.\<close>

definition empty_address :: address where
  "empty_address = \<lparr>firstName = None, lastName = None, address1 = None, address2 = None,
     city = None, province = None, provinceCode = None, country = None,
     countryCode = None, zip = None, phone = None, company = None\<rparr>"

text \<open>
  One property of the merged object,
  \<^verbatim>\<open>primary.f || fallback.f || ''\<close>. The fallback's property is read only when
  the primary's is falsy, and that read throws when the fallback is \<^verbatim>\<open>null\<close>.
\<close>

definition mergeField ::
  "string option \<Rightarrow> address maybe \<Rightarrow> (address \<Rightarrow> string option) \<Rightarrow> error + string option"
where
  "mergeField p fallback sel =
     (if truthy p then Inr p
      else case fallback of
        Null \<Rightarrow> Inl (TypeError ''Cannot read properties of null'')
      | Undefined \<Rightarrow> Inr (Some (or_empty (js_or p (sel empty_address))))
      | Val f \<Rightarrow> Inr (Some (or_empty (js_or p (sel f)))))"

text \<open>Sequencing of computations that may throw.\<close>

definition bind :: "error + 'a \<Rightarrow> ('a \<Rightarrow> error + 'b) \<Rightarrow> error + 'b" where
  "bind m k = (case m of Inl e \<Rightarrow> Inl e | Inr v \<Rightarrow> k v)"

text \<open>
  \<^verbatim>\<open>mergeAddress(primary, fallback = {})\<close>: the twelve properties are evaluated in
  the order of the object literal.
\<close>

definition mergeAddress :: "address \<Rightarrow> address maybe \<Rightarrow> error + address" where
  "mergeAddress primary fallback =
     bind (mergeField (firstName primary) fallback firstName) (\<lambda>v1.
     bind (mergeField (lastName primary) fallback lastName) (\<lambda>v2.
     bind (mergeField (address1 primary) fallback address1) (\<lambda>v3.
     bind (mergeField (address2 primary) fallback address2) (\<lambda>v4.
     bind (mergeField (city primary) fallback city) (\<lambda>v5.
     bind (mergeField (province primary) fallback province) (\<lambda>v6.
     bind (mergeField (provinceCode primary) fallback provinceCode) (\<lambda>v7.
     bind (mergeField (country primary) fallback country) (\<lambda>v8.
     bind (mergeField (countryCode primary) fallback countryCode) (\<lambda>v9.
     bind (mergeField (zip primary) fallback zip) (\<lambda>v10.
     bind (mergeField (phone primary) fallback phone) (\<lambda>v11.
     bind (mergeField (company primary) fallback company) (\<lambda>v12.
     Inr \<lparr>firstName = v1, lastName = v2, address1 = v3, address2 = v4,
          city = v5, province = v6, provinceCode = v7, country = v8,
          countryCode = v9, zip = v10, phone = v11, company = v12\<rparr>))))))))))))"

section \<open>Numbers and strings of the runtime\<close>

text \<open>
  A JavaScript number: a finite value, \<^verbatim>\<open>NaN\<close>, \<^verbatim>\<open>Infinity\<close> or
  \<^verbatim>\<open>-Infinity\<close>. A finite number is identified by its exact value; every double
  is a rational. A decimal literal of the source is read at its decimal value.
\<close>

datatype jsnum = Fin rat | NaN | PosInf | NegInf

text \<open>Truthiness of a number: \<open>0\<close> and \<^verbatim>\<open>NaN\<close> are falsy.\<close>

definition num_truthy :: "jsnum \<Rightarrow> bool" where
  "num_truthy n = (case n of Fin q \<Rightarrow> q \<noteq> 0 | NaN \<Rightarrow> False | PosInf \<Rightarrow> True | NegInf \<Rightarrow> True)"


text \<open>\<^verbatim>\<open>n || d\<close> on an optional number.\<close>

definition num_or :: "jsnum option \<Rightarrow> jsnum \<Rightarrow> jsnum" where
  "num_or n d = (case n of None \<Rightarrow> d | Some v \<Rightarrow> if num_truthy v then v else d)"

text \<open>A value that is \<^verbatim>\<open>undefined\<close>, \<^verbatim>\<open>null\<close>, a number or a string.\<close>

datatype jsval = VUndefined | VNull | VNum jsnum | VStr string

text \<open>
  A string is the list of its UTF-8 bytes. The white space and line terminators
  that \<^verbatim>\<open>String.prototype.trim\<close> removes are, within ASCII: tab, line feed,
  vertical tab, form feed, carriage return and space. The white space beyond ASCII,
  which takes several bytes each, is not recognised here.
\<close>

definition is_space :: "char \<Rightarrow> bool" where
  "is_space c = (of_char c \<in> {9, 10, 11, 12, 13, 32 :: nat})"

definition trim :: "string \<Rightarrow> string" where
  "trim s = rev (dropWhile is_space (rev (dropWhile is_space s)))"

text \<open>The class \<^verbatim>\<open>\d\<close> of a regular expression without the unicode flag: \<open>0\<close> to \<open>9\<close>.\<close>

definition is_digit :: "char \<Rightarrow> bool" where
  "is_digit c = (48 \<le> (of_char c :: nat) \<and> (of_char c :: nat) \<le> 57)"

definition digit_char :: "nat \<Rightarrow> char" where
  "digit_char d = char_of (48 + d)"

text \<open>The decimal digits of a natural number, without leading zeros; \<open>0\<close> is \<open>''0''\<close>.\<close>

fun digits :: "nat \<Rightarrow> string" where
  "digits n = (if n < 10 then [digit_char n] else digits (n div 10) @ [digit_char (n mod 10)])"

declare digits.simps [simp del]

text \<open>\<^verbatim>\<open>s.slice(-k)\<close>: the last \<open>k\<close> characters, the whole string when it is shorter.\<close>

definition slice_last :: "nat \<Rightarrow> string \<Rightarrow> string" where
  "slice_last k s = drop (length s - k) s"

text \<open>\<^verbatim>\<open>xs.join(sep)\<close> on a list of strings.\<close>

fun join :: "string \<Rightarrow> string list \<Rightarrow> string" where
  "join sep [] = []"
| "join sep [x] = x"
| "join sep (x # y # ys) = x @ sep @ join sep (y # ys)"


section \<open>PDF service: invoice number, VAT rate, addresses\<close>

text \<open>
  \<^verbatim>\<open>draftOrderName.match(/\d+/)\<close>: the leftmost, longest run of digits. The match
  fails exactly when the run is empty.
\<close>

definition first_digit_run :: "string \<Rightarrow> string" where
  "first_digit_run s = takeWhile is_digit (dropWhile (\<lambda>c. \<not> is_digit c) s)"

text \<open>
  \<^verbatim>\<open>generateInvoiceNumber(draftOrderName, prefix = 'INV-EE-')\<close>. \<open>now\<close> is the value
  of \<^verbatim>\<open>Date.now()\<close>, the milliseconds since the epoch. A \<^verbatim>\<open>null\<close> prefix is
  interpolated as the text \<open>null\<close>.
\<close>

definition generateInvoiceNumber :: "nat \<Rightarrow> string option \<Rightarrow> string maybe \<Rightarrow> string" where
  "generateInvoiceNumber now draftOrderName prefix =
     (let p = (case prefix of Undefined \<Rightarrow> ''INV-EE-'' | Null \<Rightarrow> ''null'' | Val s \<Rightarrow> s);
          timestamp = slice_last 6 (digits now)
      in case draftOrderName of
           None \<Rightarrow> p @ timestamp
         | Some n \<Rightarrow>
             if n \<noteq> [] \<and> first_digit_run n \<noteq> [] then p @ first_digit_run n
             else p @ timestamp)"

record tax_line =
  tl_title :: "string option"
  tl_rate :: "jsnum option"
  tl_price :: jsval

text \<open>\<^verbatim>\<open>getLineItemVatRate(taxLines)\<close>.\<close>

definition getLineItemVatRate :: "tax_line list option \<Rightarrow> jsnum" where
  "getLineItemVatRate taxLines =
     (case taxLines of
        None \<Rightarrow> Fin 0
      | Some [] \<Rightarrow> Fin 0
      | Some (t # _) \<Rightarrow> num_or (tl_rate t) (Fin 0))"

text \<open>A processed line item, as \<open>processInvoiceLineItems\<close> returns it.\<close>

record line_item =
  description :: string
  title :: "string option"
  variantTitle :: string
  sku :: string
  quantity :: jsnum
  unitPrice :: string
  unitPriceRaw :: jsnum
  vatRate :: jsnum
  vatRateFormatted :: string
  amount :: string
  amountRaw :: jsnum


record customer =
  cust_id :: "string option"
  cust_email :: "string option"
  cust_firstName :: "string option"
  cust_lastName :: "string option"

record b2b_company =
  company_name :: "string option"

text \<open>
  The address block of the invoice. The branch for a missing address has no
  \<open>province\<close> property.
\<close>

record invoice_address =
  companyName :: string
  name :: string
  line1 :: string
  line2 :: string
  ia_city :: string
  ia_zip :: string
  ia_province :: "string option"
  ia_country :: string

text \<open>
  \<^verbatim>\<open>customer?.firstName && customer?.lastName ? `${first} ${last}`.trim() : 'Customer'\<close>
\<close>

definition customer_name :: "customer option \<Rightarrow> string" where
  "customer_name cust =
     (case cust of
        None \<Rightarrow> ''Customer''
      | Some c \<Rightarrow>
          if truthy (cust_firstName c) \<and> truthy (cust_lastName c)
          then trim (or_empty (cust_firstName c) @ '' '' @ or_empty (cust_lastName c))
          else ''Customer'')"

text \<open>\<^verbatim>\<open>company?.name\<close>\<close>

definition company_name_of :: "b2b_company option \<Rightarrow> string option" where
  "company_name_of co = (case co of None \<Rightarrow> None | Some c \<Rightarrow> company_name c)"

text \<open>\<^verbatim>\<open>formatInvoiceAddress(address, customer, company = null)\<close>.\<close>

definition formatInvoiceAddress ::
  "address option \<Rightarrow> customer option \<Rightarrow> b2b_company option \<Rightarrow> invoice_address" where
  "formatInvoiceAddress addr cust co =
     (case addr of
        None \<Rightarrow>
          \<lparr>companyName = or_empty (company_name_of co),
           name = customer_name cust,
           line1 = [], line2 = [], ia_city = [], ia_zip = [], ia_province = None,
           ia_country = []\<rparr>
      | Some a \<Rightarrow>
          \<lparr>companyName = or_empty (js_or (company_name_of co) (company a)),
           name = (if truthy (firstName a) \<and> truthy (lastName a)
                   then trim (or_empty (firstName a) @ '' '' @ or_empty (lastName a))
                   else customer_name cust),
           line1 = or_empty (address1 a),
           line2 = or_empty (address2 a),
           ia_city = or_empty (city a),
           ia_zip = or_empty (zip a),
           ia_province = Some (or_empty (province a)),
           ia_country = or_empty (country a)\<rparr>)"


section \<open>PDF service: prices and line items\<close>

text \<open>
  \<^verbatim>\<open>Number.prototype.toFixed(2)\<close>, as the language standard defines it on the exact
  value: \<open>n\<close> is the integer nearest to \<open>100 * x\<close>, the larger one on a tie; its digits
  are padded with zeros to at least three, and the point goes before the last two.
  A value that is not finite gives its name, and a value of magnitude \<open>10^21\<close> or more
  gives the exponent notation of \<^verbatim>\<open>Number::toString\<close>, which is the parameter
  \<open>toStr\<close>.
\<close>

definition toFixed2 :: "(rat \<Rightarrow> string) \<Rightarrow> jsnum \<Rightarrow> string" where
  "toFixed2 toStr x =
     (case x of
        NaN \<Rightarrow> ''NaN''
      | PosInf \<Rightarrow> ''Infinity''
      | NegInf \<Rightarrow> ''-Infinity''
      | Fin q \<Rightarrow>
          (let s = (if q < 0 then ''-'' else []);
               a = \<bar>q\<bar>
           in if 10 ^ 21 \<le> a then s @ toStr a
              else
                (let n = nat \<lfloor>a * 100 + 1 / 2\<rfloor>;
                     m0 = digits n;
                     m = (if length m0 \<le> 2 then replicate (3 - length m0) (CHR ''0'') @ m0 else m0);
                     k = length m
                 in s @ take (k - 2) m @ ''.'' @ drop (k - 2) m)))"

text \<open>The euro sign, the default currency symbol, in its three UTF-8 bytes.\<close>

definition euro_sign :: string where
  "euro_sign = [char_of (226 :: nat), char_of (130 :: nat), char_of (172 :: nat)]"

text \<open>
  \<^verbatim>\<open>formatPrice(price, currencySymbol)\<close> for a price that is a number,
  \<^verbatim>\<open>null\<close> or \<^verbatim>\<open>undefined\<close>. An omitted symbol is the euro sign; a
  \<^verbatim>\<open>null\<close> symbol is interpolated as the text \<open>null\<close>.
\<close>

definition formatPrice :: "(rat \<Rightarrow> string) \<Rightarrow> jsnum maybe \<Rightarrow> string maybe \<Rightarrow> string" where
  "formatPrice toStr price currencySymbol =
     (let sym = (case currencySymbol of Undefined \<Rightarrow> euro_sign | Null \<Rightarrow> ''null'' | Val s \<Rightarrow> s)
      in case price of
           Undefined \<Rightarrow> sym @ ''0.00''
         | Null \<Rightarrow> sym @ ''0.00''
         | Val p \<Rightarrow> sym @ toFixed2 toStr p)"

text \<open>
  The operations of the runtime on doubles that the services use and that are not
  computed here: \<^verbatim>\<open>parseFloat\<close>, the product of two numbers, and
  \<^verbatim>\<open>Number::toString\<close> of a finite number.
\<close>

record js_runtime =
  rt_parseFloat :: "string \<Rightarrow> jsnum"
  rt_mul :: "jsnum \<Rightarrow> jsnum \<Rightarrow> jsnum"
  rt_toString :: "rat \<Rightarrow> string"

text \<open>\<^verbatim>\<open>parseAmount(amount)\<close>.\<close>

definition parseAmount :: "js_runtime \<Rightarrow> jsval \<Rightarrow> jsnum" where
  "parseAmount rt amt =
     (case amt of
        VUndefined \<Rightarrow> Fin 0
      | VNull \<Rightarrow> Fin 0
      | VNum n \<Rightarrow> n
      | VStr s \<Rightarrow> num_or (Some (rt_parseFloat rt s)) (Fin 0))"

text \<open>\<^verbatim>\<open>Math.round\<close>: the nearest integer, the larger one on a tie.\<close>

definition js_round :: "jsnum \<Rightarrow> jsnum" where
  "js_round x = (case x of Fin q \<Rightarrow> Fin (of_int \<lfloor>q + 1 / 2\<rfloor>) | NaN \<Rightarrow> NaN | PosInf \<Rightarrow> PosInf | NegInf \<Rightarrow> NegInf)"

text \<open>
  A number inside a template literal. An integer of magnitude up to \<open>2^53\<close> is
  written with its digits; the other finite numbers are left to the runtime.
\<close>

definition numToString :: "js_runtime \<Rightarrow> jsnum \<Rightarrow> string" where
  "numToString rt x =
     (case x of
        NaN \<Rightarrow> ''NaN''
      | PosInf \<Rightarrow> ''Infinity''
      | NegInf \<Rightarrow> ''-Infinity''
      | Fin q \<Rightarrow>
          if of_int \<lfloor>q\<rfloor> = q \<and> \<bar>q\<bar> \<le> 2 ^ 53
          then (if q < 0 then ''-'' else []) @ digits (nat \<bar>\<lfloor>q\<rfloor>\<bar>)
          else rt_toString rt q)"

record variant =
  v_title :: "string option"
  v_sku :: "string option"

record line_item_node =
  n_title :: "string option"
  n_quantity :: "jsnum option"
  n_originalUnitPrice :: jsval
  n_taxLines :: "tax_line list option"
  n_variant :: "variant option"

record line_item_edge =
  node :: line_item_node

record line_items_connection =
  edges :: "line_item_edge list option"

text \<open>The body of the \<^verbatim>\<open>map\<close> callback of \<open>processInvoiceLineItems\<close>.\<close>

definition processLineItemNode :: "js_runtime \<Rightarrow> string maybe \<Rightarrow> line_item_node \<Rightarrow> line_item" where
  "processLineItemNode rt currencySymbol nd =
     (let qty = num_or (n_quantity nd) (Fin 1);
          price = parseAmount rt (n_originalUnitPrice nd);
          lineTotal = rt_mul rt price qty;
          rate = getLineItemVatRate (n_taxLines nd);
          vTitle = (case n_variant nd of None \<Rightarrow> None | Some v \<Rightarrow> v_title v);
          vSku = (case n_variant nd of None \<Rightarrow> None | Some v \<Rightarrow> v_sku v);
          d0 = (if truthy (n_title nd) then or_empty (n_title nd) else ''Product'');
          d1 = (if truthy vTitle \<and> vTitle \<noteq> Some ''Default Title'' \<and> vTitle \<noteq> n_title nd
                then d0 @ '' ('' @ or_empty vTitle @ '')'' else d0);
          d2 = (if truthy vSku then d1 @ '' ('' @ or_empty vSku @ '')'' else d1)
      in \<lparr>description = d2,
          title = n_title nd,
          variantTitle = or_empty vTitle,
          sku = or_empty vSku,
          quantity = qty,
          unitPrice = formatPrice (rt_toString rt) (Val price) currencySymbol,
          unitPriceRaw = price,
          vatRate = rate,
          vatRateFormatted = numToString rt (js_round (rt_mul rt rate (Fin 100))) @ ''%'',
          amount = formatPrice (rt_toString rt) (Val lineTotal) currencySymbol,
          amountRaw = lineTotal\<rparr>)"

text \<open>\<^verbatim>\<open>processInvoiceLineItems(lineItems, currencySymbol)\<close>.\<close>

definition processInvoiceLineItems ::
  "js_runtime \<Rightarrow> line_items_connection option \<Rightarrow> string maybe \<Rightarrow> line_item list" where
  "processInvoiceLineItems rt lineItems currencySymbol =
     (case lineItems of
        None \<Rightarrow> []
      | Some c \<Rightarrow>
          (case edges c of
             None \<Rightarrow> []
           | Some es \<Rightarrow> map (\<lambda>e. processLineItemNode rt currencySymbol (node e)) es))"


section \<open>Draft order service: creating a draft order\<close>

record property =
  prop_key :: "string option"
  prop_value :: "string option"

record cart_line =
  cl_variantId :: "string option"
  cl_quantity :: "jsnum option"
  cl_properties :: "property list option"

text \<open>
  \<^verbatim>\<open>data.purchasingEntity\<close>, of which the code reads \<^verbatim>\<open>company?.id\<close> and
  \<^verbatim>\<open>location?.id\<close>; a missing company or location is a missing id.
\<close>

record purchasing_entity =
  pe_companyId :: "string option"
  pe_locationId :: "string option"

record checkout_data =
  cartLines :: "cart_line list option"
  cd_customer :: "customer option"
  cd_purchasingEntity :: "purchasing_entity option"
  cd_shippingAddress :: "address option"
  cd_billingAddress :: "address option"
  cd_note :: "string option"
  cd_cartToken :: "string option"

record line_item_input =
  li_variantId :: "string option"
  li_quantity :: "jsnum option"
  li_customAttributes :: "property list option"

record purchasing_company =
  companyId :: "string option"
  companyLocationId :: "string option"
  companyContactId :: "string option"

text \<open>The variable \<^verbatim>\<open>input\<close> of the mutation; a property not set is \<open>None\<close>.\<close>

record draft_order_input =
  in_lineItems :: "line_item_input list"
  in_email :: "string option"
  in_purchasingEntity :: "purchasing_company option"
  in_shippingAddress :: "address option"
  in_billingAddress :: "address option"
  in_note :: "string option"
  in_tags :: "string list"

text \<open>
  A JSON value of a response, with \<^verbatim>\<open>undefined\<close> for what a property read may
  give. The keys of an object are taken to be distinct.
\<close>

datatype json =
    JUndefined | JNull | JBool bool | JNum jsnum | JStr string
  | JArr "json list" | JObj "(string \<times> json) list"

text \<open>A property read \<^verbatim>\<open>v.k\<close> on a value that is not \<^verbatim>\<open>null\<close> or \<^verbatim>\<open>undefined\<close>.\<close>

definition jget :: "json \<Rightarrow> string \<Rightarrow> json" where
  "jget v k =
     (case v of
        JObj kvs \<Rightarrow> (case map_of kvs k of None \<Rightarrow> JUndefined | Some x \<Rightarrow> x)
      | _ \<Rightarrow> JUndefined)"

definition json_truthy :: "json \<Rightarrow> bool" where
  "json_truthy v =
     (case v of
        JUndefined \<Rightarrow> False
      | JNull \<Rightarrow> False
      | JBool b \<Rightarrow> b
      | JNum n \<Rightarrow> num_truthy n
      | JStr s \<Rightarrow> s \<noteq> []
      | JArr xs \<Rightarrow> True
      | JObj kvs \<Rightarrow> True)"

text \<open>\<^verbatim>\<open>formatDraftOrderResponse(draftOrder)\<close>.\<close>

definition formatDraftOrderResponse :: "json \<Rightarrow> json" where
  "formatDraftOrderResponse draftOrder =
     JObj
      [(''id'', jget draftOrder ''id''),
       (''name'', jget draftOrder ''name''),
       (''status'', jget draftOrder ''status''),
       (''invoiceUrl'', jget draftOrder ''invoiceUrl''),
       (''totalPrice'', jget draftOrder ''totalPrice''),
       (''subtotalPrice'', jget draftOrder ''subtotalPrice''),
       (''totalTax'', jget draftOrder ''totalTax''),
       (''currencyCode'', jget draftOrder ''currencyCode''),
       (''taxLines'', if json_truthy (jget draftOrder ''taxLines'')
                      then jget draftOrder ''taxLines'' else JArr []),
       (''appliedDiscount'', jget draftOrder ''appliedDiscount''),
       (''discountCodes'', if json_truthy (jget draftOrder ''discountCodes'')
                           then jget draftOrder ''discountCodes'' else JArr []),
       (''totalDiscountsSet'', jget draftOrder ''totalDiscountsSet''),
       (''shippingLine'', jget draftOrder ''shippingLine''),
       (''createdAt'', jget draftOrder ''createdAt''),
       (''updatedAt'', jget draftOrder ''updatedAt''),
       (''customer'', jget draftOrder ''customer''),
       (''shippingAddress'', jget draftOrder ''shippingAddress''),
       (''billingAddress'', jget draftOrder ''billingAddress''),
       (''lineItems'', jget draftOrder ''lineItems''),
       (''company'',
          (let pe = jget draftOrder ''purchasingEntity'';
               co = (if pe = JNull \<or> pe = JUndefined then JUndefined else jget pe ''company'')
           in if json_truthy co then co else JNull))]"

text \<open>
  What the code reads of the response to the mutation: the messages of
  \<^verbatim>\<open>data?.draftOrderCreate?.userErrors\<close> and \<^verbatim>\<open>data?.draftOrderCreate?.draftOrder\<close>.
\<close>

record create_response =
  cr_userErrors :: "string list option"
  cr_draftOrder :: "json option"

record contact_profile =
  prof_id :: "string option"
  prof_companyId :: "string option"

text \<open>
  The admin client, by the two operations the service requests from it. A request
  resolves to the response or rejects with an error, given by its message.
\<close>

record admin_client =
  draftOrderCreate :: "draft_order_input \<Rightarrow> string + create_response"
  customerCompanyContacts :: "string \<Rightarrow> string + contact_profile list option"

text \<open>The remote calls issued, in order.\<close>

datatype admin_request =
    CustomerCompanyContactsRequest string
  | DraftOrderCreateRequest draft_order_input

text \<open>\<^verbatim>\<open>hasAddressData(address)\<close>.\<close>

definition hasAddressData :: "address \<Rightarrow> bool" where
  "hasAddressData a =
     truthy (js_or (js_or (js_or (address1 a) (city a)) (country a)) (countryCode a))"

text \<open>\<^verbatim>\<open>buildShopifyAddress(address)\<close>: only the truthy properties are copied.\<close>

definition keep_truthy :: "string option \<Rightarrow> string option" where
  "keep_truthy v = (if truthy v then v else None)"

definition buildShopifyAddress :: "address \<Rightarrow> address" where
  "buildShopifyAddress a =
     \<lparr>firstName = keep_truthy (firstName a), lastName = keep_truthy (lastName a),
      address1 = keep_truthy (address1 a), address2 = keep_truthy (address2 a),
      city = keep_truthy (city a), province = keep_truthy (province a),
      provinceCode = keep_truthy (provinceCode a), country = keep_truthy (country a),
      countryCode = keep_truthy (countryCode a), zip = keep_truthy (zip a),
      phone = keep_truthy (phone a), company = keep_truthy (company a)\<rparr>"

text \<open>
  \<^verbatim>\<open>fetchCompanyContactId(customerId, companyId)\<close>, with the request it issues. A
  rejected request gives \<^verbatim>\<open>null\<close>.
\<close>

definition fetchCompanyContactId ::
  "admin_client option \<Rightarrow> string \<Rightarrow> string option \<Rightarrow> string option \<times> admin_request list" where
  "fetchCompanyContactId adminClient customerId cId =
     (case adminClient of
        None \<Rightarrow> (None, [])
      | Some client \<Rightarrow>
          (case customerCompanyContacts client customerId of
             Inl msg \<Rightarrow> (None, [CustomerCompanyContactsRequest customerId])
           | Inr profiles \<Rightarrow>
               (case find (\<lambda>p. prof_companyId p = cId)
                       (case profiles of None \<Rightarrow> [] | Some ps \<Rightarrow> ps) of
                  None \<Rightarrow> (None, [CustomerCompanyContactsRequest customerId])
                | Some m \<Rightarrow> (prof_id m, [CustomerCompanyContactsRequest customerId]))))"

text \<open>The line item of the mutation for one cart line.\<close>

definition lineItemOf :: "cart_line \<Rightarrow> line_item_input" where
  "lineItemOf line =
     \<lparr>li_variantId = cl_variantId line,
      li_quantity = cl_quantity line,
      li_customAttributes =
        (case cl_properties line of
           None \<Rightarrow> None
         | Some [] \<Rightarrow> None
         | Some ps \<Rightarrow> Some (map (\<lambda>p. \<lparr>prop_key = prop_key p, prop_value = prop_value p\<rparr>) ps))\<rparr>"

text \<open>An address of the input: set only when the address is present and has data.\<close>

definition inputAddress :: "address option \<Rightarrow> address option" where
  "inputAddress a =
     (case a of
        None \<Rightarrow> None
      | Some x \<Rightarrow> if hasAddressData x then Some (buildShopifyAddress x) else None)"

text \<open>
  The \<^verbatim>\<open>try\<close> block of \<open>createDraftOrder\<close>: the mutation and the reading of its
  response. Every error thrown inside it is caught and thrown again with the
  prefix \<open>Failed to create draft order: \<close>.
\<close>

definition submitDraftOrder :: "admin_client \<Rightarrow> draft_order_input \<Rightarrow> error + json" where
  "submitDraftOrder client inp =
     (case (case draftOrderCreate client inp of
              Inl msg \<Rightarrow> Inl msg
            | Inr response \<Rightarrow>
                (case cr_userErrors response of
                   Some (e # es) \<Rightarrow>
                     Inl (''Draft order creation failed: '' @ join '', '' (e # es))
                 | _ \<Rightarrow>
                     (case cr_draftOrder response of
                        None \<Rightarrow> Inl ''Draft order creation failed: No draft order returned''
                      | Some d \<Rightarrow>
                          if json_truthy d then Inr (formatDraftOrderResponse d)
                          else Inl ''Draft order creation failed: No draft order returned''))) of
        Inl msg \<Rightarrow> Inl (Error (''Failed to create draft order: '' @ msg))
      | Inr r \<Rightarrow> Inr r)"

text \<open>
  \<^verbatim>\<open>createDraftOrder(data)\<close>, with the remote calls it issues. The two checks come
  first; the company contact is looked up while the input is built; the mutation
  is submitted last.
\<close>

definition createDraftOrder ::
  "admin_client option \<Rightarrow> checkout_data \<Rightarrow> (error + json) \<times> admin_request list" where
  "createDraftOrder adminClient data =
     (case adminClient of
        None \<Rightarrow> (Inl (Error ''Admin API client not configured''), [])
      | Some client \<Rightarrow>
          (case cartLines data of
             None \<Rightarrow> (Inl (Error ''No line items provided''), [])
           | Some [] \<Rightarrow> (Inl (Error ''No line items provided''), [])
           | Some ls \<Rightarrow>
               (let email = (case cd_customer data of None \<Rightarrow> None | Some c \<Rightarrow> keep_truthy (cust_email c));
                    customerId = (case cd_customer data of None \<Rightarrow> None | Some c \<Rightarrow> cust_id c);
                    cId = (case cd_purchasingEntity data of None \<Rightarrow> None | Some p \<Rightarrow> pe_companyId p);
                    lId = (case cd_purchasingEntity data of None \<Rightarrow> None | Some p \<Rightarrow> pe_locationId p);
                    (pe, reqs) =
                      (if truthy cId \<and> truthy lId then
                         (case (if truthy customerId
                                then fetchCompanyContactId adminClient (or_empty customerId) cId
                                else (None, [])) of
                            (fetched, rs) \<Rightarrow>
                              (Some \<lparr>companyId = cId, companyLocationId = lId,
                                     companyContactId =
                                       (if truthy fetched then fetched else customerId)\<rparr>, rs))
                       else (None, []));
                    inp = \<lparr>in_lineItems = map lineItemOf ls,
                           in_email = email,
                           in_purchasingEntity = pe,
                           in_shippingAddress = inputAddress (cd_shippingAddress data),
                           in_billingAddress = inputAddress (cd_billingAddress data),
                           in_note = keep_truthy (cd_note data),
                           in_tags = (if truthy (cd_cartToken data)
                                      then [''quote-request'', ''cart-api'']
                                      else [''quote-request''])\<rparr>
                in (submitDraftOrder client inp, reqs @ [DraftOrderCreateRequest inp]))))"


section \<open>Invoice PDF service\<close>

text \<open>The two properties of a draft order that \<open>generateAndAttachPdf\<close> reads.\<close>

record draft_order =
  do_id :: "string option"
  do_name :: "string option"

type_synonym pdf_bytes = "nat list"

text \<open>The file object that \<open>uploadPdf\<close> resolves to.\<close>

record uploaded_file =
  uf_id :: "string option"
  uf_url :: "string option"

text \<open>
  The collaborators reached through \<^verbatim>\<open>this.fastify.services\<close>. Each call either
  resolves to a value or rejects with an error.
\<close>

record 'p services =
  generateInvoicePdf :: "draft_order maybe \<Rightarrow> 'p maybe \<Rightarrow> error + pdf_bytes"
  uploadPdf :: "pdf_bytes \<Rightarrow> string \<Rightarrow> string \<Rightarrow> error + uploaded_file"
  attachFileToDraftOrder :: "string option \<Rightarrow> string option \<Rightarrow> error + unit"

text \<open>The calls made on the collaborators, with their arguments, in order.\<close>

datatype 'p service_call =
    GenerateInvoicePdf "draft_order maybe" "'p maybe"
  | UploadPdf pdf_bytes string string
  | AttachFileToDraftOrder "string option" "string option"

record pdf_result =
  status :: string
  url :: "string option"

text \<open>
  The invoice number of the file name:
  \<^verbatim>\<open>draftOrder.name ? `INV-EE-${draftOrder.name.replace(/[^0-9]/g, '')}` : `INV-EE-${Date.now()}`\<close>
\<close>

definition fileInvoiceNumber :: "nat \<Rightarrow> draft_order \<Rightarrow> string" where
  "fileInvoiceNumber now d =
     (if truthy (do_name d) then ''INV-EE-'' @ filter is_digit (or_empty (do_name d))
      else ''INV-EE-'' @ digits now)"

definition pdfFilename :: "nat \<Rightarrow> draft_order \<Rightarrow> string" where
  "pdfFilename now d = ''vat_invoice_'' @ fileInvoiceNumber now d @ ''.pdf''"

definition pdfAlt :: "nat \<Rightarrow> draft_order \<Rightarrow> string" where
  "pdfAlt now d = ''VAT Invoice '' @ fileInvoiceNumber now d"

text \<open>
  The body of the \<^verbatim>\<open>try\<close> block of \<open>generateAndAttachPdf\<close>. An omitted payload is
  \<^verbatim>\<open>null\<close>. Reading \<^verbatim>\<open>draftOrder.name\<close> throws when the draft order is
  \<^verbatim>\<open>null\<close> or \<^verbatim>\<open>undefined\<close>. Log calls are left out.
\<close>

definition generateAndAttachPdf_try ::
  "'p services \<Rightarrow> nat \<Rightarrow> draft_order maybe \<Rightarrow> 'p maybe
     \<Rightarrow> (error + pdf_result) \<times> 'p service_call list" where
  "generateAndAttachPdf_try svc now draftOrder payload0 =
     (let payload = (case payload0 of Undefined \<Rightarrow> Null | p \<Rightarrow> p);
          c1 = GenerateInvoicePdf draftOrder payload
      in case generateInvoicePdf svc draftOrder payload of
           Inl e \<Rightarrow> (Inl e, [c1])
         | Inr pdfFile \<Rightarrow>
             (case draftOrder of
                Undefined \<Rightarrow> (Inl (TypeError ''Cannot read properties of undefined''), [c1])
              | Null \<Rightarrow> (Inl (TypeError ''Cannot read properties of null''), [c1])
              | Val d \<Rightarrow>
                  (let c2 = UploadPdf pdfFile (pdfFilename now d) (pdfAlt now d)
                   in case uploadPdf svc pdfFile (pdfFilename now d) (pdfAlt now d) of
                        Inl e \<Rightarrow> (Inl e, [c1, c2])
                      | Inr file \<Rightarrow>
                          (let c3 = AttachFileToDraftOrder (do_id d) (uf_url file)
                           in case attachFileToDraftOrder svc (do_id d) (uf_url file) of
                                Inl e \<Rightarrow> (Inl e, [c1, c2, c3])
                              | Inr _ \<Rightarrow>
                                  (Inr \<lparr>status = ''completed'', url = uf_url file\<rparr>,
                                   [c1, c2, c3])))))"

text \<open>
  \<^verbatim>\<open>generateAndAttachPdf(draftOrder, payload = null)\<close>: the \<^verbatim>\<open>try\<close> block and its
  \<^verbatim>\<open>catch\<close> handler. The handler reads \<^verbatim>\<open>draftOrder.id\<close> for its log entry, which
  throws when the draft order is \<^verbatim>\<open>null\<close> or \<^verbatim>\<open>undefined\<close>.
\<close>

definition generateAndAttachPdf ::
  "'p services \<Rightarrow> nat \<Rightarrow> draft_order maybe \<Rightarrow> 'p maybe
     \<Rightarrow> (error + pdf_result) \<times> 'p service_call list" where
  "generateAndAttachPdf svc now draftOrder payload =
     (case generateAndAttachPdf_try svc now draftOrder payload of
        (Inr r, calls) \<Rightarrow> (Inr r, calls)
      | (Inl e, calls) \<Rightarrow>
          (case draftOrder of
             Undefined \<Rightarrow> (Inl (TypeError ''Cannot read properties of undefined''), calls)
           | Null \<Rightarrow> (Inl (TypeError ''Cannot read properties of null''), calls)
           | Val d \<Rightarrow> (Inr \<lparr>status = ''pdf_failed'', url = None\<rparr>, calls)))"


section \<open>File service: waiting for the file URL\<close>

record file_error =
  fe_code :: string
  fe_message :: string

text \<open>The node that the status query returns.\<close>

record remote_file =
  rf_fileStatus :: "string option"
  rf_url :: "string option"
  rf_fileErrors :: "file_error list option"

text \<open>What \<open>waitForFileUrl\<close> does besides returning: status requests and sleeps.\<close>

datatype poll_event = Request nat | Sleep int

text \<open>
  The message of the error for a file whose status is \<open>FAILED\<close>:
  \<^verbatim>\<open>file?.fileErrors?.map(e => `${e.code}: ${e.message}`).join(', ')\<close>, replaced by
  \<open>Unknown error\<close> when it is undefined or empty.
\<close>

definition fileErrorsText :: "remote_file \<Rightarrow> string" where
  "fileErrorsText file =
     (let errors = (case rf_fileErrors file of
                      None \<Rightarrow> None
                    | Some es \<Rightarrow> Some (join '', '' (map (\<lambda>e. fe_code e @ '': '' @ fe_message e) es)))
      in if truthy errors then or_empty errors else ''Unknown error'')"

text \<open>
  The loop of \<open>waitForFileUrl\<close>. \<open>poll k\<close> is the outcome of the status request
  number \<open>k\<close> (counted from 0): the request throws, or it answers with the node, which
  may be missing. \<open>maxRetries\<close> and \<open>delayMs\<close> are integers.
\<close>

function waitLoop ::
  "(nat \<Rightarrow> error + remote_file option) \<Rightarrow> string \<Rightarrow> int \<Rightarrow> int \<Rightarrow> nat
     \<Rightarrow> (error + string) \<times> poll_event list" where
  "waitLoop poll fileId maxRetries delayMs attempts =
     (if int attempts < maxRetries then
        (case poll attempts of
           Inl e \<Rightarrow> (Inl e, [Request attempts])
         | Inr file \<Rightarrow>
             (let fileStatus = (case file of None \<Rightarrow> None | Some f \<Rightarrow> rf_fileStatus f);
                  fileUrl = (case file of None \<Rightarrow> None | Some f \<Rightarrow> rf_url f)
              in if fileStatus = Some ''READY'' \<and> truthy fileUrl
                 then (Inr (or_empty fileUrl), [Request attempts])
                 else if fileStatus = Some ''FAILED''
                 then (Inl (Error (''File processing failed: '' @
                         (case file of None \<Rightarrow> ''Unknown error'' | Some f \<Rightarrow> fileErrorsText f))),
                       [Request attempts])
                 else (case waitLoop poll fileId maxRetries delayMs (Suc attempts) of
                         (r, evs) \<Rightarrow>
                           (r, Request attempts #
                               (if int (Suc attempts) < maxRetries then [Sleep delayMs] else [])
                               @ evs))))
      else (Inl (NotReady fileId maxRetries (of_int (maxRetries * delayMs) / 1000)), []))"
  by pat_completeness auto
termination
  by (relation "measure (\<lambda>(poll, fileId, maxRetries, delayMs, attempts). nat (maxRetries - int attempts))")
    auto

declare waitLoop.simps [simp del]

text \<open>\<^verbatim>\<open>waitForFileUrl(fileId, maxRetries = 10, delayMs = 1000)\<close>.\<close>

definition waitForFileUrl ::
  "(nat \<Rightarrow> error + remote_file option) \<Rightarrow> string \<Rightarrow> int option \<Rightarrow> int option
     \<Rightarrow> (error + string) \<times> poll_event list" where
  "waitForFileUrl poll fileId maxRetries delayMs =
     waitLoop poll fileId (case maxRetries of None \<Rightarrow> 10 | Some m \<Rightarrow> m)
       (case delayMs of None \<Rightarrow> 1000 | Some d \<Rightarrow> d) 0"


section \<open>Specification-side definitions\<close>

text \<open>
  The merge rule in the words of the specification: the primary's field when it is
  non-empty, otherwise the fallback's field when it is non-empty, otherwise the empty
  string.
\<close>

definition spec_merged_field :: "string option \<Rightarrow> string option \<Rightarrow> string" where
  "spec_merged_field p f =
     (case p of
        Some (c # cs) \<Rightarrow> c # cs
      | _ \<Rightarrow> (case f of Some (d # ds) \<Rightarrow> d # ds | _ \<Rightarrow> []))"


text \<open>
  A status response that does not end the polling loop: the request succeeded and
  the node is neither \<open>READY\<close> with a URL nor \<open>FAILED\<close>. The statuses \<open>UPLOADED\<close> and
  \<open>PROCESSING\<close> are of this kind.
\<close>

definition pending :: "error + remote_file option \<Rightarrow> bool" where
  "pending r =
     (case r of
        Inl e \<Rightarrow> False
      | Inr None \<Rightarrow> True
      | Inr (Some f) \<Rightarrow>
          \<not> (rf_fileStatus f = Some ''READY'' \<and> truthy (rf_url f)) \<and>
          rf_fileStatus f \<noteq> Some ''FAILED'')"

text \<open>The number of status requests among the events of a run.\<close>

fun is_request :: "poll_event \<Rightarrow> bool" where
  "is_request (Request k) = True"
| "is_request (Sleep d) = False"

definition requests :: "poll_event list \<Rightarrow> nat" where
  "requests evs = length (filter is_request evs)"


section \<open>Properties\<close>

lemma mergeField_Obj:
  "mergeField (sel p) (Val f) sel = Inr (Some (spec_merged_field (sel p) (sel f)))"
  by (simp add: mergeField_def truthy_def js_or_def or_empty_def spec_merged_field_def
      split: option.splits list.splits)

text \<open>
  C7. For every primary address and every fallback address, \<open>mergeAddress\<close> succeeds
  and merges field by field: each of the twelve fields of the result is the primary's
  field when that is non-empty, otherwise the fallback's field when that is non-empty,
  otherwise the empty string.
\<close>

theorem mergeAddress_field_by_field:
  "mergeAddress p (Val f) = Inr
     \<lparr>firstName = Some (spec_merged_field (firstName p) (firstName f)),
      lastName = Some (spec_merged_field (lastName p) (lastName f)),
      address1 = Some (spec_merged_field (address1 p) (address1 f)),
      address2 = Some (spec_merged_field (address2 p) (address2 f)),
      city = Some (spec_merged_field (city p) (city f)),
      province = Some (spec_merged_field (province p) (province f)),
      provinceCode = Some (spec_merged_field (provinceCode p) (provinceCode f)),
      country = Some (spec_merged_field (country p) (country f)),
      countryCode = Some (spec_merged_field (countryCode p) (countryCode f)),
      zip = Some (spec_merged_field (zip p) (zip f)),
      phone = Some (spec_merged_field (phone p) (phone f)),
      company = Some (spec_merged_field (company p) (company f))\<rparr>"
  unfolding mergeAddress_def by (simp add: mergeField_Obj bind_def)

text \<open>
  The example of the specification:
  \<^verbatim>\<open>mergeAddress({address1: "A"}, {address1: "B", city: "C"})\<close> has \<open>address1\<close>
  \<open>A\<close>, \<open>city\<close> \<open>C\<close> and every other field empty.
\<close>

theorem mergeAddress_field_by_field_witness:
  "mergeAddress (empty_address\<lparr>address1 := Some ''A''\<rparr>)
     (Val (empty_address\<lparr>address1 := Some ''B'', city := Some ''C''\<rparr>))
   = Inr \<lparr>firstName = Some [], lastName = Some [], address1 = Some ''A'',
      address2 = Some [], city = Some ''C'', province = Some [], provinceCode = Some [],
      country = Some [], countryCode = Some [], zip = Some [], phone = Some [],
      company = Some []\<rparr>"
  using mergeAddress_field_by_field
    [of "empty_address\<lparr>address1 := Some ''A''\<rparr>"
        "empty_address\<lparr>address1 := Some ''B'', city := Some ''C''\<rparr>"]
  by (simp add: empty_address_def spec_merged_field_def)

subsection \<open>Decimal digits and digit runs\<close>

lemma is_digit_digit_char: "d < 10 \<Longrightarrow> is_digit (digit_char d)"
  by (simp add: is_digit_def digit_char_def)

lemma digits_all_digit: "\<forall>c\<in>set (digits n). is_digit c"
proof (induction n rule: digits.induct)
  case (1 n)
  show ?case
  proof (cases "n < 10")
    case True
    then show ?thesis by (subst digits.simps) (simp add: is_digit_digit_char)
  next
    case False
    with 1 show ?thesis by (subst digits.simps) (simp add: is_digit_digit_char)
  qed
qed

lemma digits_nonempty: "digits n \<noteq> []"
  by (subst digits.simps) simp

lemma length_digits_step: "10 \<le> n \<Longrightarrow> length (digits n) = Suc (length (digits (n div 10)))"
  by (subst digits.simps) simp

lemma length_digits_ge: "10 ^ k \<le> n \<Longrightarrow> k < length (digits n)"
proof (induction k arbitrary: n)
  case 0
  then show ?case using digits_nonempty [of n] by (cases "digits n") auto
next
  case (Suc k)
  then have "10 \<le> n" 
  proof -
    have "(1::nat) \<le> 10 ^ k" by simp
    then have "(10::nat) * 1 \<le> 10 * 10 ^ k" by (rule mult_le_mono2)
    also have "\<dots> = 10 ^ Suc k" by simp
    also note Suc.prems
    finally show ?thesis by simp
  qed
  moreover have "10 ^ k \<le> n div 10" using Suc.prems by (simp add: less_eq_div_iff_mult_less_eq)
  ultimately show ?case using Suc.IH [of "n div 10"] by (simp add: length_digits_step)
qed

lemma first_digit_run_decomp:
  assumes "\<forall>c\<in>set pre. \<not> is_digit c" "run \<noteq> []" "\<forall>c\<in>set run. is_digit c"
    "post = [] \<or> \<not> is_digit (hd post)"
  shows "first_digit_run (pre @ run @ post) = run"
proof -
  have "dropWhile (\<lambda>c. \<not> is_digit c) (pre @ run @ post) = run @ post"
    using assms(1,2,3) by (cases run) (simp_all add: dropWhile_append3)
  moreover have "takeWhile is_digit (run @ post) = run"
    using assms(3,4) by (cases post) (simp_all add: takeWhile_append2)
  ultimately show ?thesis by (simp add: first_digit_run_def)
qed

lemma first_digit_run_none:
  "\<forall>c\<in>set n. \<not> is_digit c \<Longrightarrow> first_digit_run n = []"
  by (induction n) (simp_all add: first_digit_run_def)

lemma char_of_eval: "of_char c = (k::nat) \<Longrightarrow> char_of k = c"
  by auto

lemma digit_char_eval:
  "digit_char 0 = CHR ''0''" "digit_char (Suc 0) = CHR ''1''" "digit_char 2 = CHR ''2''"
  "digit_char 3 = CHR ''3''" "digit_char 4 = CHR ''4''" "digit_char 5 = CHR ''5''"
  "digit_char 6 = CHR ''6''" "digit_char 7 = CHR ''7''" "digit_char 8 = CHR ''8''"
  "digit_char 9 = CHR ''9''"
  unfolding digit_char_def by (rule char_of_eval, simp)+


lemma slice_last_six:
  assumes "100000 \<le> now"
  shows "length (slice_last 6 (digits now)) = 6"
    and "\<forall>c\<in>set (slice_last 6 (digits now)). is_digit c"
proof -
  have "(10::nat) ^ 5 \<le> now" using assms by simp
  then have "5 < length (digits now)" by (rule length_digits_ge)
  then show "length (slice_last 6 (digits now)) = 6" by (simp add: slice_last_def)
  show "\<forall>c\<in>set (slice_last 6 (digits now)). is_digit c"
    using digits_all_digit [of now] by (auto simp: slice_last_def dest: in_set_dropD)
qed

lemma slice_last_nonempty: "s \<noteq> [] \<Longrightarrow> slice_last 6 s \<noteq> []"
  by (cases s) (auto simp: slice_last_def)

subsection \<open>Invoice number\<close>

text \<open>
  C5. For every draft order name and prefix: when the name contains a digit,
  \<open>generateInvoiceNumber\<close> returns the prefix followed by the first run of digits of
  the name (the name split as non-digits, a maximal non-empty run of digits, the
  rest). When the name is absent or has no digit, it returns the prefix followed by
  the last six characters of the decimal clock value, which are six digits once the
  clock is past 100000 ms. The result is never empty, and an omitted prefix is
  \<open>INV-EE-\<close>.
\<close>

theorem generateInvoiceNumber_spec:
  "(n = pre @ run @ post \<and> (\<forall>c\<in>set pre. \<not> is_digit c) \<and> run \<noteq> [] \<and>
      (\<forall>c\<in>set run. is_digit c) \<and> (post = [] \<or> \<not> is_digit (hd post))
      \<longrightarrow> generateInvoiceNumber now (Some n) (Val prefix) = prefix @ run)
   \<and> ((dname = None \<or> (\<exists>m. dname = Some m \<and> (\<forall>c\<in>set m. \<not> is_digit c))) \<and> 100000 \<le> now
      \<longrightarrow> (\<exists>t. generateInvoiceNumber now dname (Val prefix) = prefix @ t \<and>
            t = slice_last 6 (digits now) \<and> length t = 6 \<and> (\<forall>c\<in>set t. is_digit c)))
   \<and> generateInvoiceNumber now dname pfx \<noteq> []
   \<and> generateInvoiceNumber now dname Undefined = generateInvoiceNumber now dname (Val ''INV-EE-'')"
proof (intro conjI impI)
  assume h: "n = pre @ run @ post \<and> (\<forall>c\<in>set pre. \<not> is_digit c) \<and> run \<noteq> [] \<and>
      (\<forall>c\<in>set run. is_digit c) \<and> (post = [] \<or> \<not> is_digit (hd post))"
  then have "first_digit_run n = run" using first_digit_run_decomp by blast
  moreover have "n \<noteq> []" using h by simp
  ultimately show "generateInvoiceNumber now (Some n) (Val prefix) = prefix @ run"
    using h by (simp add: generateInvoiceNumber_def)
next
  assume h: "(dname = None \<or> (\<exists>m. dname = Some m \<and> (\<forall>c\<in>set m. \<not> is_digit c))) \<and> 100000 \<le> now"
  then have "generateInvoiceNumber now dname (Val prefix) = prefix @ slice_last 6 (digits now)"
    by (auto simp: generateInvoiceNumber_def first_digit_run_none)
  then show "\<exists>t. generateInvoiceNumber now dname (Val prefix) = prefix @ t \<and>
            t = slice_last 6 (digits now) \<and> length t = 6 \<and> (\<forall>c\<in>set t. is_digit c)"
    using h slice_last_six [of now] by simp
next
  have "slice_last 6 (digits now) \<noteq> []" by (rule slice_last_nonempty) (rule digits_nonempty)
  then show "generateInvoiceNumber now dname pfx \<noteq> []"
    by (simp add: generateInvoiceNumber_def Let_def split: option.splits)
next
  show "generateInvoiceNumber now dname Undefined = generateInvoiceNumber now dname (Val ''INV-EE-'')"
    by (simp add: generateInvoiceNumber_def)
qed

text \<open>
  The draft order name \<open>#D123\<close> with the default prefix gives \<open>INV-EE-123\<close>; a name
  without digits, and an absent name, give the last six digits of the clock.
\<close>

theorem generateInvoiceNumber_spec_witness:
  "generateInvoiceNumber 0 (Some ''#D123'') Undefined = ''INV-EE-123''
   \<and> generateInvoiceNumber 1700000000123 (Some ''#D'') Undefined = ''INV-EE-000123''
   \<and> generateInvoiceNumber 1700000000123 None Undefined = ''INV-EE-000123''"
  using generateInvoiceNumber_spec
     [of "''#D123''" "''#D''" "''123''" "[]" 0 "''INV-EE-''" "Some ''#D123''" Undefined]
    generateInvoiceNumber_spec
     [of "[]" "[]" "[]" "[]" 1700000000123 "''INV-EE-''" "Some ''#D''" Undefined]
    generateInvoiceNumber_spec
     [of "[]" "[]" "[]" "[]" 1700000000123 "''INV-EE-''" "None" Undefined]
  by (simp add: slice_last_def digits.simps digit_char_eval is_digit_def)

subsection \<open>Invoice address\<close>

text \<open>
  C9. For every address, optional customer and optional company: the display name is
  the address's first and last name (joined by a space and trimmed) when the address
  has both; otherwise the customer's first and last name when the customer has both;
  otherwise the literal \<open>Customer\<close>. The company name is the company's name when that
  is present and non-empty, otherwise the address's company field, and empty when
  both are absent.
\<close>

theorem formatInvoiceAddress_display_name:
  "(firstName a = Some f \<and> f \<noteq> [] \<and> lastName a = Some l \<and> l \<noteq> []
      \<longrightarrow> name (formatInvoiceAddress (Some a) cust co) = trim (f @ '' '' @ l))
   \<and> (\<not> (truthy (firstName a) \<and> truthy (lastName a)) \<and> cust = Some c \<and>
        cust_firstName c = Some cf \<and> cf \<noteq> [] \<and> cust_lastName c = Some cl \<and> cl \<noteq> []
      \<longrightarrow> name (formatInvoiceAddress (Some a) cust co) = trim (cf @ '' '' @ cl))
   \<and> (\<not> (truthy (firstName a) \<and> truthy (lastName a)) \<and>
        (cust = None \<or> (\<exists>d. cust = Some d \<and> \<not> (truthy (cust_firstName d) \<and> truthy (cust_lastName d))))
      \<longrightarrow> name (formatInvoiceAddress (Some a) cust co) = ''Customer'')
   \<and> (co = Some k \<and> company_name k = Some cn \<and> cn \<noteq> []
      \<longrightarrow> companyName (formatInvoiceAddress (Some a) cust co) = cn)
   \<and> (\<not> truthy (company_name_of co) \<and> company a = Some an
      \<longrightarrow> companyName (formatInvoiceAddress (Some a) cust co) = an)
   \<and> (\<not> truthy (company_name_of co) \<and> company a = None
      \<longrightarrow> companyName (formatInvoiceAddress (Some a) cust co) = [])"
  by (auto simp: formatInvoiceAddress_def customer_name_def truthy_def or_empty_def js_or_def
      company_name_of_def split: option.splits)

theorem formatInvoiceAddress_display_name_witness:
  "name (formatInvoiceAddress
      (Some (empty_address\<lparr>firstName := Some ''Ann'', lastName := Some ''Lee''\<rparr>))
      (Some \<lparr>cust_id = None, cust_email = None, cust_firstName = Some ''Bob'',
             cust_lastName = Some ''Ray''\<rparr>) None) = ''Ann Lee''
   \<and> name (formatInvoiceAddress
      (Some (empty_address\<lparr>firstName := Some ''Ann''\<rparr>))
      (Some \<lparr>cust_id = None, cust_email = None, cust_firstName = Some ''Bob'',
             cust_lastName = Some ''Ray''\<rparr>) None) = ''Bob Ray''
   \<and> name (formatInvoiceAddress (Some empty_address) None None) = ''Customer''
   \<and> companyName (formatInvoiceAddress
      (Some (empty_address\<lparr>company := Some ''ACME''\<rparr>)) None
      (Some \<lparr>company_name = Some ''Euro B2B''\<rparr>)) = ''Euro B2B''
   \<and> companyName (formatInvoiceAddress
      (Some (empty_address\<lparr>company := Some ''ACME''\<rparr>)) None None) = ''ACME''
   \<and> companyName (formatInvoiceAddress (Some empty_address) None None) = []"
  using formatInvoiceAddress_display_name
     [where a = "empty_address\<lparr>firstName := Some ''Ann'', lastName := Some ''Lee''\<rparr>"
        and f = "''Ann''" and l = "''Lee''" and co = None
        and cust = "Some \<lparr>cust_id = None, cust_email = None, cust_firstName = Some ''Bob'',
             cust_lastName = Some ''Ray''\<rparr>"]
    formatInvoiceAddress_display_name
     [where a = "empty_address\<lparr>firstName := Some ''Ann''\<rparr>" and co = None
        and c = "\<lparr>cust_id = None, cust_email = None, cust_firstName = Some ''Bob'',
             cust_lastName = Some ''Ray''\<rparr>"
        and cf = "''Bob''" and cl = "''Ray''"
        and cust = "Some \<lparr>cust_id = None, cust_email = None, cust_firstName = Some ''Bob'',
             cust_lastName = Some ''Ray''\<rparr>"]
    formatInvoiceAddress_display_name
     [where a = "empty_address" and co = None and cust = None]
    formatInvoiceAddress_display_name
     [where a = "empty_address\<lparr>company := Some ''ACME''\<rparr>" and cust = None
        and k = "\<lparr>company_name = Some ''Euro B2B''\<rparr>" and cn = "''Euro B2B''"
        and co = "Some \<lparr>company_name = Some ''Euro B2B''\<rparr>"]
    formatInvoiceAddress_display_name
     [where a = "empty_address\<lparr>company := Some ''ACME''\<rparr>" and cust = None
        and co = None and an = "''ACME''"]
  by (simp add: empty_address_def truthy_def company_name_of_def trim_def is_space_def)

subsection \<open>Primary VAT rate\<close>






subsection \<open>Invoice workflow\<close>

text \<open>
  C1. For every draft order, payload, clock value and behaviour of the three
  collaborators, \<open>generateAndAttachPdf\<close> returns a result and never throws; when
  generating the PDF, uploading it and attaching it all succeed the result is
  \<open>completed\<close> with the uploaded file's URL, and when any of them fails the result is
  \<open>pdf_failed\<close> with no URL.
\<close>

theorem generateAndAttachPdf_never_throws:
  "pl = (case payload of Undefined \<Rightarrow> Null | p \<Rightarrow> p) \<longrightarrow>
   (\<exists>r. fst (generateAndAttachPdf svc now (Val d) payload) = Inr r)
   \<and> (generateInvoicePdf svc (Val d) pl = Inr pdf \<and>
        uploadPdf svc pdf (pdfFilename now d) (pdfAlt now d) = Inr uf \<and>
        attachFileToDraftOrder svc (do_id d) (uf_url uf) = Inr ()
      \<longrightarrow> fst (generateAndAttachPdf svc now (Val d) payload)
            = Inr \<lparr>status = ''completed'', url = uf_url uf\<rparr>)
   \<and> ((\<exists>e. generateInvoicePdf svc (Val d) pl = Inl e) \<or>
       (\<exists>b e. generateInvoicePdf svc (Val d) pl = Inr b \<and>
          uploadPdf svc b (pdfFilename now d) (pdfAlt now d) = Inl e) \<or>
       (\<exists>b f e. generateInvoicePdf svc (Val d) pl = Inr b \<and>
          uploadPdf svc b (pdfFilename now d) (pdfAlt now d) = Inr f \<and>
          attachFileToDraftOrder svc (do_id d) (uf_url f) = Inl e)
      \<longrightarrow> fst (generateAndAttachPdf svc now (Val d) payload)
            = Inr \<lparr>status = ''pdf_failed'', url = None\<rparr>)"
  by (auto simp: generateAndAttachPdf_def generateAndAttachPdf_try_def Let_def
      split: sum.splits prod.splits)

text \<open>
  A run in which every step succeeds, and a run in which the renderer throws.
\<close>

theorem generateAndAttachPdf_never_throws_witness:
  "generateAndAttachPdf
     \<lparr>generateInvoicePdf = (\<lambda>d p. Inr [37, 80, 68, 70]),
      uploadPdf = (\<lambda>b n a. Inr \<lparr>uf_id = Some ''gid://shopify/GenericFile/1'',
                                 uf_url = Some ''https://cdn.example/f.pdf''\<rparr>),
      attachFileToDraftOrder = (\<lambda>i u. Inr ())\<rparr>
     1700000000123
     (Val \<lparr>do_id = Some ''gid://shopify/DraftOrder/7'', do_name = Some ''#D123''\<rparr>)
     (Undefined :: unit maybe)
   = (Inr \<lparr>status = ''completed'', url = Some ''https://cdn.example/f.pdf''\<rparr>,
      [GenerateInvoicePdf (Val \<lparr>do_id = Some ''gid://shopify/DraftOrder/7'', do_name = Some ''#D123''\<rparr>) Null,
       UploadPdf [37, 80, 68, 70] ''vat_invoice_INV-EE-123.pdf'' ''VAT Invoice INV-EE-123'',
       AttachFileToDraftOrder (Some ''gid://shopify/DraftOrder/7'') (Some ''https://cdn.example/f.pdf'')])
   \<and> generateAndAttachPdf
     \<lparr>generateInvoicePdf = (\<lambda>d p. Inl (Error ''Invoice PDF generation failed: boom'')),
      uploadPdf = (\<lambda>b n a. Inr \<lparr>uf_id = Some ''gid://shopify/GenericFile/1'',
                                 uf_url = Some ''https://cdn.example/f.pdf''\<rparr>),
      attachFileToDraftOrder = (\<lambda>i u. Inr ())\<rparr>
     1700000000123
     (Val \<lparr>do_id = Some ''gid://shopify/DraftOrder/7'', do_name = Some ''#D123''\<rparr>)
     (Undefined :: unit maybe)
   = (Inr \<lparr>status = ''pdf_failed'', url = None\<rparr>,
      [GenerateInvoicePdf (Val \<lparr>do_id = Some ''gid://shopify/DraftOrder/7'', do_name = Some ''#D123''\<rparr>) Null])"
  using generateAndAttachPdf_never_throws
     [where svc = "\<lparr>generateInvoicePdf = (\<lambda>d p. Inr [37, 80, 68, 70]),
      uploadPdf = (\<lambda>b n a. Inr \<lparr>uf_id = Some ''gid://shopify/GenericFile/1'',
                                 uf_url = Some ''https://cdn.example/f.pdf''\<rparr>),
      attachFileToDraftOrder = (\<lambda>i u. Inr ())\<rparr>"
       and now = 1700000000123 and payload = "Undefined :: unit maybe" and pl = Null
       and d = "\<lparr>do_id = Some ''gid://shopify/DraftOrder/7'', do_name = Some ''#D123''\<rparr>"
       and pdf = "[37, 80, 68, 70]"
       and uf = "\<lparr>uf_id = Some ''gid://shopify/GenericFile/1'',
                                 uf_url = Some ''https://cdn.example/f.pdf''\<rparr>"]
    generateAndAttachPdf_never_throws
     [where svc = "\<lparr>generateInvoicePdf = (\<lambda>d p. Inl (Error ''Invoice PDF generation failed: boom'')),
      uploadPdf = (\<lambda>b n a. Inr \<lparr>uf_id = Some ''gid://shopify/GenericFile/1'',
                                 uf_url = Some ''https://cdn.example/f.pdf''\<rparr>),
      attachFileToDraftOrder = (\<lambda>i u. Inr ())\<rparr>"
       and now = 1700000000123 and payload = "Undefined :: unit maybe" and pl = Null
       and d = "\<lparr>do_id = Some ''gid://shopify/DraftOrder/7'', do_name = Some ''#D123''\<rparr>"]
  by (simp add: generateAndAttachPdf_def generateAndAttachPdf_try_def pdfFilename_def pdfAlt_def
      fileInvoiceNumber_def truthy_def or_empty_def is_digit_def)

text \<open>
  C6. The file name passed to the uploader is built from its own invoice number:
  the fixed prefix \<open>INV-EE-\<close> followed by every digit of the draft order name. It
  differs from the invoice number of the document, \<open>generateInvoiceNumber\<close>, when the
  configured prefix is not \<open>INV-EE-\<close>, when the name has more than one run of digits,
  and when the name has no digit.
\<close>

theorem pdfFilename_ignores_invoice_number:
  "generateInvoiceNumber 1700000000123 (Some ''#D123'') (Val ''INV-FI-'') = ''INV-FI-123''
   \<and> pdfFilename 1700000000123
        \<lparr>do_id = Some ''gid://shopify/DraftOrder/7'', do_name = Some ''#D123''\<rparr>
      = ''vat_invoice_INV-EE-123.pdf''
   \<and> generateInvoiceNumber 1700000000123 (Some ''#D12-34'') Undefined = ''INV-EE-12''
   \<and> pdfFilename 1700000000123
        \<lparr>do_id = Some ''gid://shopify/DraftOrder/7'', do_name = Some ''#D12-34''\<rparr>
      = ''vat_invoice_INV-EE-1234.pdf''
   \<and> generateInvoiceNumber 1700000000123 (Some ''#D'') Undefined = ''INV-EE-000123''
   \<and> pdfFilename 1700000000123
        \<lparr>do_id = Some ''gid://shopify/DraftOrder/7'', do_name = Some ''#D''\<rparr>
      = ''vat_invoice_INV-EE-.pdf''
   \<and> snd (generateAndAttachPdf
     \<lparr>generateInvoicePdf = (\<lambda>d p. Inr [37, 80, 68, 70]),
      uploadPdf = (\<lambda>b n a. Inr \<lparr>uf_id = Some ''gid://shopify/GenericFile/1'',
                                 uf_url = Some ''https://cdn.example/f.pdf''\<rparr>),
      attachFileToDraftOrder = (\<lambda>i u. Inr ())\<rparr>
     1700000000123
     (Val \<lparr>do_id = Some ''gid://shopify/DraftOrder/7'', do_name = Some ''#D12-34''\<rparr>)
     (Null :: unit maybe)) ! 1
     = UploadPdf [37, 80, 68, 70] ''vat_invoice_INV-EE-1234.pdf'' ''VAT Invoice INV-EE-1234''"
  by (simp add: generateAndAttachPdf_def generateAndAttachPdf_try_def pdfFilename_def pdfAlt_def
      fileInvoiceNumber_def truthy_def or_empty_def is_digit_def generateInvoiceNumber_def
      first_digit_run_def slice_last_def digits.simps digit_char_eval)

subsection \<open>Waiting for the file URL\<close>

lemma waitLoop_pending_step:
  assumes "int a < maxRetries" "pending (poll a)"
  shows "fst (waitLoop poll fid maxRetries delayMs a) = fst (waitLoop poll fid maxRetries delayMs (Suc a))"
    and "requests (snd (waitLoop poll fid maxRetries delayMs a))
         = Suc (requests (snd (waitLoop poll fid maxRetries delayMs (Suc a))))"
  using assms
  by (subst waitLoop.simps, auto simp: pending_def requests_def Let_def
      split: sum.splits option.splits prod.splits)+

lemma waitLoop_pending_prefix:
  assumes "\<forall>i. a \<le> i \<and> i < a + n \<longrightarrow> pending (poll i)" "int (a + n) \<le> maxRetries"
  shows "fst (waitLoop poll fid maxRetries delayMs a) = fst (waitLoop poll fid maxRetries delayMs (a + n))
     \<and> requests (snd (waitLoop poll fid maxRetries delayMs a))
         = n + requests (snd (waitLoop poll fid maxRetries delayMs (a + n)))"
  using assms
proof (induction n arbitrary: a)
  case 0
  then show ?case by simp
next
  case (Suc n)
  have a: "int a < maxRetries" "pending (poll a)" using Suc.prems by auto
  have "\<forall>i. Suc a \<le> i \<and> i < Suc a + n \<longrightarrow> pending (poll i)" using Suc.prems by auto
  moreover have "int (Suc a + n) \<le> maxRetries" using Suc.prems by simp
  ultimately have ih: "fst (waitLoop poll fid maxRetries delayMs (Suc a)) = fst (waitLoop poll fid maxRetries delayMs (Suc a + n))
     \<and> requests (snd (waitLoop poll fid maxRetries delayMs (Suc a)))
         = n + requests (snd (waitLoop poll fid maxRetries delayMs (Suc a + n)))"
    by (rule Suc.IH)
  show ?case
    using ih a waitLoop_pending_step
      [where poll = poll and a = a and maxRetries = maxRetries and fid = fid and delayMs = delayMs]
    by simp
qed

lemma waitLoop_requests_le:
  "requests (snd (waitLoop poll fid maxRetries delayMs a)) \<le> nat (maxRetries - int a)"
proof (induction poll fid maxRetries delayMs a rule: waitLoop.induct)
  case (1 poll fileId maxRetries delayMs attempts)
  show ?case
  proof (cases "int attempts < maxRetries")
    case False
    then show ?thesis by (subst waitLoop.simps) (simp add: requests_def)
  next
    case True
    show ?thesis
    proof (cases "pending (poll attempts)")
      case True
      from 1 [OF \<open>int attempts < maxRetries\<close>]
      have "requests (snd (waitLoop poll fileId maxRetries delayMs (Suc attempts)))
              \<le> nat (maxRetries - int (Suc attempts))"
        using True
        by (auto simp: pending_def split: sum.splits option.splits)
      then show ?thesis
        using True \<open>int attempts < maxRetries\<close> waitLoop_pending_step(2)
          [where poll = poll and a = attempts and maxRetries = maxRetries and fid = fileId
             and delayMs = delayMs]
        by simp
    next
      case False
      then show ?thesis using \<open>int attempts < maxRetries\<close>
        by (subst waitLoop.simps)
          (auto simp: pending_def requests_def Let_def split: sum.splits option.splits)
    qed
  qed
qed

lemma waitLoop_ready:
  assumes "int k < maxRetries" "poll k = Inr (Some f)" "rf_fileStatus f = Some ''READY''"
    "rf_url f = Some u" "u \<noteq> []"
  shows "waitLoop poll fid maxRetries delayMs k = (Inr u, [Request k])"
  using assms by (subst waitLoop.simps) (simp add: truthy_def or_empty_def)

lemma waitLoop_failed:
  assumes "int k < maxRetries" "poll k = Inr (Some f)" "rf_fileStatus f = Some ''FAILED''"
  shows "waitLoop poll fid maxRetries delayMs k
     = (Inl (Error (''File processing failed: '' @ fileErrorsText f)), [Request k])"
  using assms by (subst waitLoop.simps) simp

lemma waitLoop_exhausted:
  assumes "maxRetries \<le> int k"
  shows "waitLoop poll fid maxRetries delayMs k
     = (Inl (NotReady fid maxRetries (of_int (maxRetries * delayMs) / 1000)), [])"
  using assms by (subst waitLoop.simps) simp

lemma join_nonempty: "xs \<noteq> [] \<Longrightarrow> \<forall>x\<in>set xs. x \<noteq> [] \<Longrightarrow> join sep xs \<noteq> []"
  by (induction sep xs rule: join.induct) auto

lemma fileErrorsText_cites:
  assumes "rf_fileErrors f = Some es" "es \<noteq> []"
  shows "fileErrorsText f = join '', '' (map (\<lambda>e. fe_code e @ '': '' @ fe_message e) es)"
proof -
  have "join '', '' (map (\<lambda>e. fe_code e @ '': '' @ fe_message e) es) \<noteq> []"
    using assms(2) by (intro join_nonempty) auto
  then show ?thesis using assms(1) by (simp add: fileErrorsText_def truthy_def or_empty_def)
qed

text \<open>
  C2, as the specification states it, lets every poll that observes the status
  \<open>READY\<close> return the file's URL. The loop returns only when the node also carries a
  URL: a file that is \<open>READY\<close> without a URL uses up the retries and the call fails.
\<close>

theorem waitForFileUrl_ready_without_url_counterexample:
  "rf_fileStatus \<lparr>rf_fileStatus = Some ''READY'', rf_url = None, rf_fileErrors = None\<rparr> = Some ''READY''
   \<and> waitForFileUrl
       (\<lambda>i. Inr (Some \<lparr>rf_fileStatus = Some ''READY'', rf_url = None, rf_fileErrors = None\<rparr>))
       ''gid://shopify/GenericFile/1'' (Some 1) (Some 1000)
     = (Inl (NotReady ''gid://shopify/GenericFile/1'' 1 1), [Request 0])"
  by (simp add: waitForFileUrl_def waitLoop.simps truthy_def)

text \<open>
  C2, amended. For every file id, \<open>maxRetries \<ge> 1\<close> and \<open>delayMs\<close>, \<open>waitForFileUrl\<close>
  issues at most \<open>maxRetries\<close> status requests. When the first \<open>k < maxRetries\<close>
  responses do not end the loop and the next one is \<open>READY\<close> with a non-empty URL, the
  result is that URL after \<open>k + 1\<close> requests; when the next one is \<open>FAILED\<close>, the call
  fails with the file-processing error, whose message lists \<open>code: message\<close> of the
  platform's errors. When no response among the first \<open>maxRetries\<close> ends the loop, the
  call fails after exactly \<open>maxRetries\<close> requests with the error that reports
  \<open>maxRetries\<close> and \<open>maxRetries * delayMs / 1000\<close> seconds.
\<close>

theorem waitForFileUrl_polling:
  "1 \<le> maxRetries \<longrightarrow>
   requests (snd (waitForFileUrl poll fid (Some maxRetries) (Some delayMs))) \<le> nat maxRetries
   \<and> (int k < maxRetries \<and> (\<forall>i<k. pending (poll i)) \<and> poll k = Inr (Some f) \<and>
        rf_fileStatus f = Some ''READY'' \<and> rf_url f = Some u \<and> u \<noteq> []
      \<longrightarrow> fst (waitForFileUrl poll fid (Some maxRetries) (Some delayMs)) = Inr u
          \<and> requests (snd (waitForFileUrl poll fid (Some maxRetries) (Some delayMs))) = k + 1)
   \<and> (int k < maxRetries \<and> (\<forall>i<k. pending (poll i)) \<and> poll k = Inr (Some f) \<and>
        rf_fileStatus f = Some ''FAILED''
      \<longrightarrow> fst (waitForFileUrl poll fid (Some maxRetries) (Some delayMs))
            = Inl (Error (''File processing failed: '' @ fileErrorsText f))
          \<and> (\<forall>es. rf_fileErrors f = Some es \<and> es \<noteq> [] \<longrightarrow>
                fileErrorsText f = join '', '' (map (\<lambda>e. fe_code e @ '': '' @ fe_message e) es))
          \<and> requests (snd (waitForFileUrl poll fid (Some maxRetries) (Some delayMs))) = k + 1)
   \<and> ((\<forall>i. int i < maxRetries \<longrightarrow> pending (poll i))
      \<longrightarrow> fst (waitForFileUrl poll fid (Some maxRetries) (Some delayMs))
            = Inl (NotReady fid maxRetries (of_int (maxRetries * delayMs) / 1000))
          \<and> requests (snd (waitForFileUrl poll fid (Some maxRetries) (Some delayMs))) = nat maxRetries)"
proof (intro impI conjI allI)
  show "requests (snd (waitForFileUrl poll fid (Some maxRetries) (Some delayMs))) \<le> nat maxRetries"
    using waitLoop_requests_le [of poll fid maxRetries delayMs 0] by (simp add: waitForFileUrl_def)
next
  assume h: "int k < maxRetries \<and> (\<forall>i<k. pending (poll i)) \<and> poll k = Inr (Some f) \<and>
        rf_fileStatus f = Some ''READY'' \<and> rf_url f = Some u \<and> u \<noteq> []"
  have p: "fst (waitLoop poll fid maxRetries delayMs 0) = fst (waitLoop poll fid maxRetries delayMs (0 + k))
     \<and> requests (snd (waitLoop poll fid maxRetries delayMs 0))
         = k + requests (snd (waitLoop poll fid maxRetries delayMs (0 + k)))"
    using h by (intro waitLoop_pending_prefix) auto
  have r: "waitLoop poll fid maxRetries delayMs k = (Inr u, [Request k])"
    using h by (intro waitLoop_ready) auto
  show "fst (waitForFileUrl poll fid (Some maxRetries) (Some delayMs)) = Inr u"
    using p r by (simp add: waitForFileUrl_def)
  show "requests (snd (waitForFileUrl poll fid (Some maxRetries) (Some delayMs))) = k + 1"
    using p r by (simp add: waitForFileUrl_def requests_def)
next
  assume h: "int k < maxRetries \<and> (\<forall>i<k. pending (poll i)) \<and> poll k = Inr (Some f) \<and>
        rf_fileStatus f = Some ''FAILED''"
  have p: "fst (waitLoop poll fid maxRetries delayMs 0) = fst (waitLoop poll fid maxRetries delayMs (0 + k))
     \<and> requests (snd (waitLoop poll fid maxRetries delayMs 0))
         = k + requests (snd (waitLoop poll fid maxRetries delayMs (0 + k)))"
    using h by (intro waitLoop_pending_prefix) auto
  have r: "waitLoop poll fid maxRetries delayMs k
     = (Inl (Error (''File processing failed: '' @ fileErrorsText f)), [Request k])"
    using h by (intro waitLoop_failed) auto
  show "fst (waitForFileUrl poll fid (Some maxRetries) (Some delayMs))
            = Inl (Error (''File processing failed: '' @ fileErrorsText f))"
    using p r by (simp add: waitForFileUrl_def)
  show "requests (snd (waitForFileUrl poll fid (Some maxRetries) (Some delayMs))) = k + 1"
    using p r by (simp add: waitForFileUrl_def requests_def)
  fix es
  assume "rf_fileErrors f = Some es \<and> es \<noteq> []"
  then show "fileErrorsText f = join '', '' (map (\<lambda>e. fe_code e @ '': '' @ fe_message e) es)"
    using fileErrorsText_cites by blast
next
  assume m: "1 \<le> maxRetries" and h: "\<forall>i. int i < maxRetries \<longrightarrow> pending (poll i)"
  have p: "fst (waitLoop poll fid maxRetries delayMs 0)
       = fst (waitLoop poll fid maxRetries delayMs (0 + nat maxRetries))
     \<and> requests (snd (waitLoop poll fid maxRetries delayMs 0))
         = nat maxRetries + requests (snd (waitLoop poll fid maxRetries delayMs (0 + nat maxRetries)))"
    using h m by (intro waitLoop_pending_prefix) auto
  have r: "waitLoop poll fid maxRetries delayMs (nat maxRetries)
     = (Inl (NotReady fid maxRetries (of_int (maxRetries * delayMs) / 1000)), [])"
    using m by (intro waitLoop_exhausted) auto
  show "fst (waitForFileUrl poll fid (Some maxRetries) (Some delayMs))
            = Inl (NotReady fid maxRetries (of_int (maxRetries * delayMs) / 1000))"
    using p r by (simp add: waitForFileUrl_def)
  show "requests (snd (waitForFileUrl poll fid (Some maxRetries) (Some delayMs))) = nat maxRetries"
    using p r by (simp add: waitForFileUrl_def requests_def)
qed

text \<open>
  A file that is \<open>PROCESSING\<close> for nine polls and \<open>READY\<close> on the tenth, with the
  default arguments; a file that never leaves \<open>UPLOADED\<close> with \<open>maxRetries = 2\<close>; a
  file that is \<open>FAILED\<close> on the second poll.
\<close>

theorem waitForFileUrl_polling_witness:
  "fst (waitForFileUrl (\<lambda>i. if i < 9
       then Inr (Some \<lparr>rf_fileStatus = Some ''PROCESSING'', rf_url = None, rf_fileErrors = None\<rparr>)
       else Inr (Some \<lparr>rf_fileStatus = Some ''READY'', rf_url = Some ''https://cdn.example/f.pdf'',
                        rf_fileErrors = None\<rparr>))
     ''gid://shopify/GenericFile/1'' None None) = Inr ''https://cdn.example/f.pdf''
   \<and> requests (snd (waitForFileUrl (\<lambda>i. if i < 9
       then Inr (Some \<lparr>rf_fileStatus = Some ''PROCESSING'', rf_url = None, rf_fileErrors = None\<rparr>)
       else Inr (Some \<lparr>rf_fileStatus = Some ''READY'', rf_url = Some ''https://cdn.example/f.pdf'',
                        rf_fileErrors = None\<rparr>))
     ''gid://shopify/GenericFile/1'' None None)) = 10
   \<and> waitForFileUrl
       (\<lambda>i. Inr (Some \<lparr>rf_fileStatus = Some ''UPLOADED'', rf_url = None, rf_fileErrors = None\<rparr>))
       ''gid://shopify/GenericFile/1'' (Some 2) (Some 1000)
     = (Inl (NotReady ''gid://shopify/GenericFile/1'' 2 2), [Request 0, Sleep 1000, Request 1])
   \<and> fst (waitForFileUrl (\<lambda>i. if i < 1
       then Inr (Some \<lparr>rf_fileStatus = Some ''PROCESSING'', rf_url = None, rf_fileErrors = None\<rparr>)
       else Inr (Some \<lparr>rf_fileStatus = Some ''FAILED'', rf_url = None,
              rf_fileErrors = Some [\<lparr>fe_code = ''INVALID'', fe_message = ''bad file''\<rparr>]\<rparr>))
     ''gid://shopify/GenericFile/1'' (Some 3) (Some 1000))
     = Inl (Error ''File processing failed: INVALID: bad file'')"
  using waitForFileUrl_polling
     [where maxRetries = 10 and delayMs = 1000 and k = 9 and fid = "''gid://shopify/GenericFile/1''"
        and u = "''https://cdn.example/f.pdf''"
        and f = "\<lparr>rf_fileStatus = Some ''READY'', rf_url = Some ''https://cdn.example/f.pdf'',
                        rf_fileErrors = None\<rparr>"
        and poll = "\<lambda>i. if i < 9
       then Inr (Some \<lparr>rf_fileStatus = Some ''PROCESSING'', rf_url = None, rf_fileErrors = None\<rparr>)
       else Inr (Some \<lparr>rf_fileStatus = Some ''READY'', rf_url = Some ''https://cdn.example/f.pdf'',
                        rf_fileErrors = None\<rparr>)"]
    waitForFileUrl_polling
     [where maxRetries = 2 and delayMs = 1000 and fid = "''gid://shopify/GenericFile/1''"
        and poll = "\<lambda>i. Inr (Some \<lparr>rf_fileStatus = Some ''UPLOADED'', rf_url = None, rf_fileErrors = None\<rparr>)"]
    waitForFileUrl_polling
     [where maxRetries = 3 and delayMs = 1000 and k = 1 and fid = "''gid://shopify/GenericFile/1''"
        and f = "\<lparr>rf_fileStatus = Some ''FAILED'', rf_url = None,
              rf_fileErrors = Some [\<lparr>fe_code = ''INVALID'', fe_message = ''bad file''\<rparr>]\<rparr>"
        and poll = "\<lambda>i. if i < 1
       then Inr (Some \<lparr>rf_fileStatus = Some ''PROCESSING'', rf_url = None, rf_fileErrors = None\<rparr>)
       else Inr (Some \<lparr>rf_fileStatus = Some ''FAILED'', rf_url = None,
              rf_fileErrors = Some [\<lparr>fe_code = ''INVALID'', fe_message = ''bad file''\<rparr>]\<rparr>)"]
  by (simp add: waitForFileUrl_def pending_def truthy_def waitLoop.simps fileErrorsText_def or_empty_def)

subsection \<open>Prices\<close>

lemma digits_lt10: "n < 10 \<Longrightarrow> digits n = [digit_char n]"
  by (subst digits.simps) simp

lemma digits_ge10: "10 \<le> n \<Longrightarrow> digits n = digits (n div 10) @ [digit_char (n mod 10)]"
  by (subst digits.simps) simp

lemma digits_split2:
  "(if length (digits n) \<le> 2 then replicate (3 - length (digits n)) (CHR ''0'') @ digits n else digits n)
   = digits (n div 100) @ [digit_char (n mod 100 div 10), digit_char (n mod 10)]"
proof -
  consider "n < 10" | "10 \<le> n" "n < 100" | "100 \<le> n" by linarith
  then show ?thesis
  proof cases
    case 1
    then have "digits n = [digit_char n]" by (subst digits.simps) simp
    moreover have "digits (n div 100) = ''0''" using 1 by (subst digits.simps) (simp add: digit_char_eval)
    ultimately show ?thesis using 1 by (simp add: digit_char_eval numeral_2_eq_2 numeral_3_eq_3)
  next
    case 2
    then have "n div 10 < 10" by simp
    then have "digits (n div 10) = [digit_char (n div 10)]" by (subst digits.simps) simp
    then have "digits n = [digit_char (n div 10), digit_char (n mod 10)]"
      using 2 by (subst digits.simps) simp
    moreover have "digits (n div 100) = ''0''" using 2 by (subst digits.simps) (simp add: digit_char_eval)
    ultimately show ?thesis using 2 by (simp add: digit_char_eval)
  next
    case 3
    then have a: "digits n = digits (n div 10) @ [digit_char (n mod 10)]"
      by (subst digits.simps) simp
    have "10 \<le> n div 10" using 3 by simp
    then have b: "digits (n div 10) = digits (n div 10 div 10) @ [digit_char (n div 10 mod 10)]"
      by (subst digits.simps) simp
    have c: "n div 10 div 10 = n div 100" by (simp add: div_mult2_eq)
    have "n mod 100 = 10 * (n div 10 mod 10) + n mod 10"
      using mod_mult2_eq [of n 10 10] by simp
    then have d: "n div 10 mod 10 = n mod 100 div 10" by simp
    have "digits (n div 100) \<noteq> []" by (rule digits_nonempty)
    then have "2 < length (digits n)" using a b c by (cases "digits (n div 100)") auto
    then show ?thesis using a b c d by simp
  qed
qed

lemma toFixed2_finite:
  assumes "\<bar>q\<bar> < 10 ^ 21"
  shows "toFixed2 toStr (Fin q) =
    (if q < 0 then ''-'' else []) @ digits (nat \<lfloor>\<bar>q\<bar> * 100 + 1 / 2\<rfloor> div 100) @ ''.'' @
      [digit_char (nat \<lfloor>\<bar>q\<bar> * 100 + 1 / 2\<rfloor> mod 100 div 10),
       digit_char (nat \<lfloor>\<bar>q\<bar> * 100 + 1 / 2\<rfloor> mod 10)]"
proof -
  define n where "n = nat \<lfloor>\<bar>q\<bar> * 100 + 1 / 2\<rfloor>"
  have "toFixed2 toStr (Fin q) = (if q < 0 then ''-'' else []) @
      (let m = (if length (digits n) \<le> 2 then replicate (3 - length (digits n)) (CHR ''0'') @ digits n else digits n)
       in take (length m - 2) m @ ''.'' @ drop (length m - 2) m)"
    using assms by (simp add: toFixed2_def Let_def n_def)
  also have "\<dots> = (if q < 0 then ''-'' else []) @ digits (n div 100) @ ''.'' @
      [digit_char (n mod 100 div 10), digit_char (n mod 10)]"
    by (simp only: digits_split2 Let_def) simp
  finally show ?thesis by (simp add: n_def)
qed

text \<open>
  C8, as the specification states it, gives every numeric amount exactly two decimal
  digits. The amount \<^verbatim>\<open>NaN\<close> is a number and is formatted as the symbol followed by
  \<open>NaN\<close>, with no decimal point at all.
\<close>

theorem formatPrice_NaN_counterexample:
  "formatPrice (\<lambda>q. []) (Val NaN) (Val ''$'') = ''$NaN''
   \<and> CHR ''.'' \<notin> set (formatPrice (\<lambda>q. []) (Val NaN) (Val ''$''))"
  by (simp add: formatPrice_def toFixed2_def)

text \<open>
  C8, amended. For every currency symbol \<open>s\<close>, \<open>formatPrice\<close> of \<^verbatim>\<open>null\<close> and of
  \<^verbatim>\<open>undefined\<close> is \<open>s\<close> followed by \<open>0.00\<close>. For every finite amount of magnitude
  below \<open>10^21\<close> it is \<open>s\<close>, a minus sign when the amount is negative, the digits of
  the whole part, a point and exactly two digits, where the digits are those of the
  amount in hundredths rounded to the nearest integer. For \<^verbatim>\<open>NaN\<close> and the
  infinities it is \<open>s\<close> followed by the name of the value.
\<close>

theorem formatPrice_two_decimals:
  "formatPrice toStr Null (Val s) = s @ ''0.00''
   \<and> formatPrice toStr Undefined (Val s) = s @ ''0.00''
   \<and> (\<bar>q\<bar> < 10 ^ 21 \<and> n = nat \<lfloor>\<bar>q\<bar> * 100 + 1 / 2\<rfloor> \<longrightarrow>
        formatPrice toStr (Val (Fin q)) (Val s)
          = s @ (if q < 0 then ''-'' else []) @ digits (n div 100) @ ''.'' @
              [digit_char (n mod 100 div 10), digit_char (n mod 10)]
        \<and> digits (n div 100) \<noteq> []
        \<and> (\<forall>c\<in>set (digits (n div 100)). is_digit c)
        \<and> is_digit (digit_char (n mod 100 div 10))
        \<and> is_digit (digit_char (n mod 10)))
   \<and> formatPrice toStr (Val NaN) (Val s) = s @ ''NaN''
   \<and> formatPrice toStr (Val PosInf) (Val s) = s @ ''Infinity''
   \<and> formatPrice toStr (Val NegInf) (Val s) = s @ ''-Infinity''"
proof (intro conjI impI)
  assume h: "\<bar>q\<bar> < 10 ^ 21 \<and> n = nat \<lfloor>\<bar>q\<bar> * 100 + 1 / 2\<rfloor>"
  then show "formatPrice toStr (Val (Fin q)) (Val s)
          = s @ (if q < 0 then ''-'' else []) @ digits (n div 100) @ ''.'' @
              [digit_char (n mod 100 div 10), digit_char (n mod 10)]"
    by (simp add: formatPrice_def toFixed2_finite)
  show "digits (n div 100) \<noteq> []" by (rule digits_nonempty)
  show "\<forall>c\<in>set (digits (n div 100)). is_digit c" by (rule digits_all_digit)
  show "is_digit (digit_char (n mod 100 div 10))" by (rule is_digit_digit_char) simp
  show "is_digit (digit_char (n mod 10))" by (rule is_digit_digit_char) simp
qed (simp_all add: formatPrice_def toFixed2_def)

theorem formatPrice_two_decimals_witness:
  "formatPrice (\<lambda>q. []) Null (Val ''$'') = ''$0.00''
   \<and> formatPrice (\<lambda>q. []) (Val (Fin (12345 / 10))) (Val ''$'') = ''$1234.50''
   \<and> formatPrice (\<lambda>q. []) (Val (Fin (- 2257 / 1000))) (Val ''$'') = ''$-2.26''
   \<and> formatPrice (\<lambda>q. []) (Val (Fin (1 / 2))) (Val ''$'') = ''$0.50''"
proof -
  have a: "nat \<lfloor>\<bar>12345 / 10 :: rat\<bar> * 100 + 1 / 2\<rfloor> = 123450"
  proof -
    have "\<bar>12345 / 10 :: rat\<bar> * 100 + 1 / 2 = 246901 / 2" by simp
    moreover have "\<lfloor>246901 / 2 :: rat\<rfloor> = 123450" by (simp add: floor_eq_iff)
    ultimately show ?thesis by simp
  qed
  have b: "nat \<lfloor>\<bar>- 2257 / 1000 :: rat\<bar> * 100 + 1 / 2\<rfloor> = 226"
  proof -
    have "\<bar>- 2257 / 1000 :: rat\<bar> * 100 + 1 / 2 = 2262 / 10" by simp
    moreover have "\<lfloor>2262 / 10 :: rat\<rfloor> = 226" by (simp add: floor_eq_iff)
    ultimately show ?thesis by simp
  qed
  have c: "nat \<lfloor>\<bar>1 / 2 :: rat\<bar> * 100 + 1 / 2\<rfloor> = 50"
  proof -
    have "\<bar>1 / 2 :: rat\<bar> * 100 + 1 / 2 = 101 / 2" by simp
    moreover have "\<lfloor>101 / 2 :: rat\<rfloor> = 50" by (simp add: floor_eq_iff)
    ultimately show ?thesis by simp
  qed
  have a': "\<bar>12345 / 10 :: rat\<bar> < 10 ^ 21 \<and> (123450 :: nat) = nat \<lfloor>\<bar>12345 / 10 :: rat\<bar> * 100 + 1 / 2\<rfloor>"
    using a by simp
  have b': "\<bar>- 2257 / 1000 :: rat\<bar> < 10 ^ 21 \<and> (226 :: nat) = nat \<lfloor>\<bar>- 2257 / 1000 :: rat\<bar> * 100 + 1 / 2\<rfloor>"
    using b by simp
  have c': "\<bar>1 / 2 :: rat\<bar> < 10 ^ 21 \<and> (50 :: nat) = nat \<lfloor>\<bar>1 / 2 :: rat\<bar> * 100 + 1 / 2\<rfloor>"
    using c by simp
  note t = formatPrice_two_decimals [where toStr = "\<lambda>q. []" and s = "''$''"]
  have "formatPrice (\<lambda>q. []) Null (Val ''$'') = ''$0.00''"
    using t [where q = 0 and n = 0] by simp
  moreover have "formatPrice (\<lambda>q. []) (Val (Fin (12345 / 10))) (Val ''$'') = ''$1234.50''"
    using t [where q = "12345 / 10" and n = 123450] a'
    by (simp add: digits_lt10 digits_ge10 digit_char_eval)
  moreover have "formatPrice (\<lambda>q. []) (Val (Fin (- 2257 / 1000))) (Val ''$'') = ''$-2.26''"
    using t [where q = "- 2257 / 1000" and n = 226] b'
    by (simp add: digits_lt10 digits_ge10 digit_char_eval)
  moreover have "formatPrice (\<lambda>q. []) (Val (Fin (1 / 2))) (Val ''$'') = ''$0.50''"
    using t [where q = "1 / 2" and n = 50] c'
    by (simp add: digits_lt10 digits_ge10 digit_char_eval)
  ultimately show ?thesis by simp
qed

subsection \<open>Creating a draft order\<close>

text \<open>
  A cart with one line reaches the remote platform: the mutation is the one call
  issued.
\<close>

lemma createDraftOrder_one_line:
  "createDraftOrder
     (Some \<lparr>draftOrderCreate = (\<lambda>i. Inr \<lparr>cr_userErrors = None,
                 cr_draftOrder = Some (JObj [(''id'', JStr ''gid://shopify/DraftOrder/7'')])\<rparr>),
            customerCompanyContacts = (\<lambda>c. Inr None)\<rparr>)
     \<lparr>cartLines = Some [\<lparr>cl_variantId = Some ''gid://shopify/ProductVariant/1'',
                           cl_quantity = Some (Fin 1), cl_properties = None\<rparr>],
      cd_customer = None, cd_purchasingEntity = None,
      cd_shippingAddress = None, cd_billingAddress = None, cd_note = None,
      cd_cartToken = None\<rparr>
   = (Inr (formatDraftOrderResponse (JObj [(''id'', JStr ''gid://shopify/DraftOrder/7'')])),
      [DraftOrderCreateRequest
        \<lparr>in_lineItems = [\<lparr>li_variantId = Some ''gid://shopify/ProductVariant/1'',
                           li_quantity = Some (Fin 1), li_customAttributes = None\<rparr>],
         in_email = None, in_purchasingEntity = None, in_shippingAddress = None,
         in_billingAddress = None, in_note = None, in_tags = [''quote-request'']\<rparr>])"
  by (simp add: createDraftOrder_def submitDraftOrder_def lineItemOf_def inputAddress_def
      keep_truthy_def truthy_def json_truthy_def)

text \<open>
  C3. With the admin client configured, for every input whose \<open>cartLines\<close> is absent
  or the empty list, \<open>createDraftOrder\<close> fails with the error whose message is
  \<open>No line items provided\<close> and issues no remote call; for an input with at least one
  cart line the last call issued is the draft-order-create mutation, carrying one
  line item per cart line.
\<close>

theorem createDraftOrder_no_line_items:
  "(cartLines data = None \<or> cartLines data = Some [] \<longrightarrow>
      createDraftOrder (Some client) data = (Inl (Error ''No line items provided''), []))
   \<and> (cartLines data = Some (l # ls) \<longrightarrow>
      (\<exists>reqs inp. snd (createDraftOrder (Some client) data) = reqs @ [DraftOrderCreateRequest inp]
         \<and> in_lineItems inp = map lineItemOf (l # ls)))"
proof (intro conjI impI)
  assume "cartLines data = None \<or> cartLines data = Some []"
  then show "createDraftOrder (Some client) data = (Inl (Error ''No line items provided''), [])"
    by (auto simp: createDraftOrder_def)
next
  assume "cartLines data = Some (l # ls)"
  then show "\<exists>reqs inp. snd (createDraftOrder (Some client) data) = reqs @ [DraftOrderCreateRequest inp]
         \<and> in_lineItems inp = map lineItemOf (l # ls)"
    by (simp add: createDraftOrder_def Let_def split: prod.splits)
qed

text \<open>An empty cart and a cart without \<open>cartLines\<close>, against a platform that would accept.\<close>

theorem createDraftOrder_no_line_items_witness:
  "createDraftOrder
     (Some \<lparr>draftOrderCreate = (\<lambda>i. Inr \<lparr>cr_userErrors = None,
                 cr_draftOrder = Some (JObj [(''id'', JStr ''gid://shopify/DraftOrder/7'')])\<rparr>),
            customerCompanyContacts = (\<lambda>c. Inr None)\<rparr>)
     \<lparr>cartLines = Some [], cd_customer = None, cd_purchasingEntity = None,
      cd_shippingAddress = None, cd_billingAddress = None, cd_note = None,
      cd_cartToken = None\<rparr>
   = (Inl (Error ''No line items provided''), [])
   \<and> createDraftOrder
     (Some \<lparr>draftOrderCreate = (\<lambda>i. Inr \<lparr>cr_userErrors = None,
                 cr_draftOrder = Some (JObj [(''id'', JStr ''gid://shopify/DraftOrder/7'')])\<rparr>),
            customerCompanyContacts = (\<lambda>c. Inr None)\<rparr>)
     \<lparr>cartLines = None, cd_customer = None, cd_purchasingEntity = None,
      cd_shippingAddress = None, cd_billingAddress = None, cd_note = None,
      cd_cartToken = None\<rparr>
   = (Inl (Error ''No line items provided''), [])"
  using createDraftOrder_no_line_items
     [where client = "\<lparr>draftOrderCreate = (\<lambda>i. Inr \<lparr>cr_userErrors = None,
                 cr_draftOrder = Some (JObj [(''id'', JStr ''gid://shopify/DraftOrder/7'')])\<rparr>),
            customerCompanyContacts = (\<lambda>c. Inr None)\<rparr>"
        and data = "\<lparr>cartLines = Some [], cd_customer = None, cd_purchasingEntity = None,
      cd_shippingAddress = None, cd_billingAddress = None, cd_note = None,
      cd_cartToken = None\<rparr>"]
    createDraftOrder_no_line_items
     [where client = "\<lparr>draftOrderCreate = (\<lambda>i. Inr \<lparr>cr_userErrors = None,
                 cr_draftOrder = Some (JObj [(''id'', JStr ''gid://shopify/DraftOrder/7'')])\<rparr>),
            customerCompanyContacts = (\<lambda>c. Inr None)\<rparr>"
        and data = "\<lparr>cartLines = None, cd_customer = None, cd_purchasingEntity = None,
      cd_shippingAddress = None, cd_billingAddress = None, cd_note = None,
      cd_cartToken = None\<rparr>"]
  by simp

subsection \<open>Invoice line items\<close>

text \<open>
  C10. For every line-items connection, \<open>processInvoiceLineItems\<close> returns the empty
  list when the connection or its \<open>edges\<close> is absent, and otherwise one entry per edge,
  in the order of the edges. In each entry the quantity is \<open>1\<close> when the node's
  quantity is absent or zero and the node's quantity otherwise, \<open>unitPriceRaw\<close> is the
  parsed original unit price, and \<open>amountRaw\<close> is the product of \<open>unitPriceRaw\<close> and
  that quantity. The parsed price is \<open>0\<close> for an absent price and for a string that
  \<^verbatim>\<open>parseFloat\<close> cannot read.
\<close>

theorem processInvoiceLineItems_entries:
  "(lineItems = None \<or> (\<exists>c. lineItems = Some c \<and> edges c = None)
      \<longrightarrow> processInvoiceLineItems rt lineItems cur = [])
   \<and> (lineItems = Some conn \<and> edges conn = Some es \<longrightarrow>
        length (processInvoiceLineItems rt lineItems cur) = length es
        \<and> (\<forall>i<length es.
             title (processInvoiceLineItems rt lineItems cur ! i) = n_title (node (es ! i))
           \<and> (n_quantity (node (es ! i)) = None \<or> n_quantity (node (es ! i)) = Some (Fin 0)
                \<longrightarrow> quantity (processInvoiceLineItems rt lineItems cur ! i) = Fin 1)
           \<and> (\<forall>q. n_quantity (node (es ! i)) = Some q \<and> num_truthy q
                \<longrightarrow> quantity (processInvoiceLineItems rt lineItems cur ! i) = q)
           \<and> unitPriceRaw (processInvoiceLineItems rt lineItems cur ! i)
                = parseAmount rt (n_originalUnitPrice (node (es ! i)))
           \<and> amountRaw (processInvoiceLineItems rt lineItems cur ! i)
                = rt_mul rt (unitPriceRaw (processInvoiceLineItems rt lineItems cur ! i))
                    (quantity (processInvoiceLineItems rt lineItems cur ! i))))
   \<and> parseAmount rt VUndefined = Fin 0
   \<and> parseAmount rt VNull = Fin 0
   \<and> parseAmount rt (VNum x) = x
   \<and> (rt_parseFloat rt s = NaN \<longrightarrow> parseAmount rt (VStr s) = Fin 0)
   \<and> (num_truthy (rt_parseFloat rt s) \<longrightarrow> parseAmount rt (VStr s) = rt_parseFloat rt s)"
proof (intro conjI impI allI)
  assume "lineItems = None \<or> (\<exists>c. lineItems = Some c \<and> edges c = None)"
  then show "processInvoiceLineItems rt lineItems cur = []"
    by (auto simp: processInvoiceLineItems_def)
next
  assume h: "lineItems = Some conn \<and> edges conn = Some es"
  then have eq: "processInvoiceLineItems rt lineItems cur
      = map (\<lambda>e. processLineItemNode rt cur (node e)) es"
    by (simp add: processInvoiceLineItems_def)
  show "length (processInvoiceLineItems rt lineItems cur) = length es" by (simp add: eq)
  fix i
  assume i: "i < length es"
  then have nth: "processInvoiceLineItems rt lineItems cur ! i = processLineItemNode rt cur (node (es ! i))"
    by (simp add: eq)
  show "title (processInvoiceLineItems rt lineItems cur ! i) = n_title (node (es ! i))"
    by (simp add: nth processLineItemNode_def Let_def)
  show "unitPriceRaw (processInvoiceLineItems rt lineItems cur ! i)
                = parseAmount rt (n_originalUnitPrice (node (es ! i)))"
    by (simp add: nth processLineItemNode_def Let_def)
  show "amountRaw (processInvoiceLineItems rt lineItems cur ! i)
                = rt_mul rt (unitPriceRaw (processInvoiceLineItems rt lineItems cur ! i))
                    (quantity (processInvoiceLineItems rt lineItems cur ! i))"
    by (simp add: nth processLineItemNode_def Let_def)
  {
    assume "n_quantity (node (es ! i)) = None \<or> n_quantity (node (es ! i)) = Some (Fin 0)"
    then show "quantity (processInvoiceLineItems rt lineItems cur ! i) = Fin 1"
      by (auto simp: nth processLineItemNode_def Let_def num_or_def num_truthy_def)
  }
  {
    fix q
    assume "n_quantity (node (es ! i)) = Some q \<and> num_truthy q"
    then show "quantity (processInvoiceLineItems rt lineItems cur ! i) = q"
      by (simp add: nth processLineItemNode_def Let_def num_or_def)
  }
next
  show "parseAmount rt VUndefined = Fin 0" by (simp add: parseAmount_def)
  show "parseAmount rt VNull = Fin 0" by (simp add: parseAmount_def)
  show "parseAmount rt (VNum x) = x" by (simp add: parseAmount_def)
  {
    assume "rt_parseFloat rt s = NaN"
    then show "parseAmount rt (VStr s) = Fin 0"
      by (simp add: parseAmount_def num_or_def num_truthy_def)
  }
  {
    assume "num_truthy (rt_parseFloat rt s)"
    then show "parseAmount rt (VStr s) = rt_parseFloat rt s"
      by (simp add: parseAmount_def num_or_def)
  }
qed

text \<open>
  Two edges: a node with title, quantity \<open>3\<close>, price \<open>12.50\<close> and a variant, and a
  node with nothing but an unreadable price.
\<close>

theorem processInvoiceLineItems_entries_witness:
  "map quantity (processInvoiceLineItems
      \<lparr>rt_parseFloat = (\<lambda>s. if s = ''12.50'' then Fin (25 / 2) else NaN),
       rt_mul = (\<lambda>a b. case a of Fin x \<Rightarrow> (case b of Fin y \<Rightarrow> Fin (x * y) | _ \<Rightarrow> NaN) | _ \<Rightarrow> NaN),
       rt_toString = (\<lambda>q. [])\<rparr>
      (Some \<lparr>edges = Some
        [\<lparr>node = \<lparr>n_title = Some ''Widget'', n_quantity = Some (Fin 3),
                    n_originalUnitPrice = VStr ''12.50'', n_taxLines = None,
                    n_variant = Some \<lparr>v_title = Some ''Blue'', v_sku = Some ''W-1''\<rparr>\<rparr>\<rparr>,
         \<lparr>node = \<lparr>n_title = None, n_quantity = None,
                    n_originalUnitPrice = VStr ''abc'', n_taxLines = None,
                    n_variant = None\<rparr>\<rparr>]\<rparr>)
      (Val ''$'')) = [Fin 3, Fin 1]
   \<and> map unitPriceRaw (processInvoiceLineItems
      \<lparr>rt_parseFloat = (\<lambda>s. if s = ''12.50'' then Fin (25 / 2) else NaN),
       rt_mul = (\<lambda>a b. case a of Fin x \<Rightarrow> (case b of Fin y \<Rightarrow> Fin (x * y) | _ \<Rightarrow> NaN) | _ \<Rightarrow> NaN),
       rt_toString = (\<lambda>q. [])\<rparr>
      (Some \<lparr>edges = Some
        [\<lparr>node = \<lparr>n_title = Some ''Widget'', n_quantity = Some (Fin 3),
                    n_originalUnitPrice = VStr ''12.50'', n_taxLines = None,
                    n_variant = Some \<lparr>v_title = Some ''Blue'', v_sku = Some ''W-1''\<rparr>\<rparr>\<rparr>,
         \<lparr>node = \<lparr>n_title = None, n_quantity = None,
                    n_originalUnitPrice = VStr ''abc'', n_taxLines = None,
                    n_variant = None\<rparr>\<rparr>]\<rparr>)
      (Val ''$'')) = [Fin (25 / 2), Fin 0]
   \<and> map amountRaw (processInvoiceLineItems
      \<lparr>rt_parseFloat = (\<lambda>s. if s = ''12.50'' then Fin (25 / 2) else NaN),
       rt_mul = (\<lambda>a b. case a of Fin x \<Rightarrow> (case b of Fin y \<Rightarrow> Fin (x * y) | _ \<Rightarrow> NaN) | _ \<Rightarrow> NaN),
       rt_toString = (\<lambda>q. [])\<rparr>
      (Some \<lparr>edges = Some
        [\<lparr>node = \<lparr>n_title = Some ''Widget'', n_quantity = Some (Fin 3),
                    n_originalUnitPrice = VStr ''12.50'', n_taxLines = None,
                    n_variant = Some \<lparr>v_title = Some ''Blue'', v_sku = Some ''W-1''\<rparr>\<rparr>\<rparr>,
         \<lparr>node = \<lparr>n_title = None, n_quantity = None,
                    n_originalUnitPrice = VStr ''abc'', n_taxLines = None,
                    n_variant = None\<rparr>\<rparr>]\<rparr>)
      (Val ''$'')) = [Fin (75 / 2), Fin 0]
   \<and> map description (processInvoiceLineItems
      \<lparr>rt_parseFloat = (\<lambda>s. if s = ''12.50'' then Fin (25 / 2) else NaN),
       rt_mul = (\<lambda>a b. case a of Fin x \<Rightarrow> (case b of Fin y \<Rightarrow> Fin (x * y) | _ \<Rightarrow> NaN) | _ \<Rightarrow> NaN),
       rt_toString = (\<lambda>q. [])\<rparr>
      (Some \<lparr>edges = Some
        [\<lparr>node = \<lparr>n_title = Some ''Widget'', n_quantity = Some (Fin 3),
                    n_originalUnitPrice = VStr ''12.50'', n_taxLines = None,
                    n_variant = Some \<lparr>v_title = Some ''Blue'', v_sku = Some ''W-1''\<rparr>\<rparr>\<rparr>,
         \<lparr>node = \<lparr>n_title = None, n_quantity = None,
                    n_originalUnitPrice = VStr ''abc'', n_taxLines = None,
                    n_variant = None\<rparr>\<rparr>]\<rparr>)
      (Val ''$'')) = [''Widget (Blue) (W-1)'', ''Product'']
   \<and> processInvoiceLineItems
      \<lparr>rt_parseFloat = (\<lambda>s. if s = ''12.50'' then Fin (25 / 2) else NaN),
       rt_mul = (\<lambda>a b. case a of Fin x \<Rightarrow> (case b of Fin y \<Rightarrow> Fin (x * y) | _ \<Rightarrow> NaN) | _ \<Rightarrow> NaN),
       rt_toString = (\<lambda>q. [])\<rparr>
      (Some \<lparr>edges = None\<rparr>) (Val ''$'') = []"
  using processInvoiceLineItems_entries
     [where rt = "\<lparr>rt_parseFloat = (\<lambda>s. if s = ''12.50'' then Fin (25 / 2) else NaN),
       rt_mul = (\<lambda>a b. case a of Fin x \<Rightarrow> (case b of Fin y \<Rightarrow> Fin (x * y) | _ \<Rightarrow> NaN) | _ \<Rightarrow> NaN),
       rt_toString = (\<lambda>q. [])\<rparr>"
       and cur = "Val ''$''" and s = "''abc''" and x = "Fin 0"
       and lineItems = "Some \<lparr>edges = Some
        [\<lparr>node = \<lparr>n_title = Some ''Widget'', n_quantity = Some (Fin 3),
                    n_originalUnitPrice = VStr ''12.50'', n_taxLines = None,
                    n_variant = Some \<lparr>v_title = Some ''Blue'', v_sku = Some ''W-1''\<rparr>\<rparr>\<rparr>,
         \<lparr>node = \<lparr>n_title = None, n_quantity = None,
                    n_originalUnitPrice = VStr ''abc'', n_taxLines = None,
                    n_variant = None\<rparr>\<rparr>]\<rparr>"
       and conn = "\<lparr>edges = Some
        [\<lparr>node = \<lparr>n_title = Some ''Widget'', n_quantity = Some (Fin 3),
                    n_originalUnitPrice = VStr ''12.50'', n_taxLines = None,
                    n_variant = Some \<lparr>v_title = Some ''Blue'', v_sku = Some ''W-1''\<rparr>\<rparr>\<rparr>,
         \<lparr>node = \<lparr>n_title = None, n_quantity = None,
                    n_originalUnitPrice = VStr ''abc'', n_taxLines = None,
                    n_variant = None\<rparr>\<rparr>]\<rparr>"
       and es = "[\<lparr>node = \<lparr>n_title = Some ''Widget'', n_quantity = Some (Fin 3),
                    n_originalUnitPrice = VStr ''12.50'', n_taxLines = None,
                    n_variant = Some \<lparr>v_title = Some ''Blue'', v_sku = Some ''W-1''\<rparr>\<rparr>\<rparr>,
         \<lparr>node = \<lparr>n_title = None, n_quantity = None,
                    n_originalUnitPrice = VStr ''abc'', n_taxLines = None,
                    n_variant = None\<rparr>\<rparr>]"]
    processInvoiceLineItems_entries
     [where rt = "\<lparr>rt_parseFloat = (\<lambda>s. if s = ''12.50'' then Fin (25 / 2) else NaN),
       rt_mul = (\<lambda>a b. case a of Fin x \<Rightarrow> (case b of Fin y \<Rightarrow> Fin (x * y) | _ \<Rightarrow> NaN) | _ \<Rightarrow> NaN),
       rt_toString = (\<lambda>q. [])\<rparr>"
       and cur = "Val ''$''" and s = "''12.50''" and x = "Fin 0"
       and lineItems = "Some \<lparr>edges = None\<rparr>"]
  by (simp add: processInvoiceLineItems_def processLineItemNode_def Let_def parseAmount_def
      num_or_def num_truthy_def truthy_def or_empty_def)

end
